theory Spec2Isabelle
  imports Main
begin

section \<open>Python values and exceptions\<close>

text \<open>
  A finite \<open>Decimal\<close> is a signed coefficient and an exponent (\<open>Dec m e\<close> is
  \<open>m * 10^e\<close>); the two special values the serializer can meet are kept apart.
\<close>

datatype decimal = Dec int int | DNaN | DInfinity bool

text \<open>
  The values that reach the serializer. A \<open>float\<close> is represented by the decimal
  that \<open>Decimal(str(value))\<close> yields for it. A \<open>set\<close> is given by an enumeration
  of its elements. A \<open>datetime\<close> is its naive ISO text together with its UTC offset
  (seconds, and the suffix \<open>isoformat()\<close> prints for it); a \<open>date\<close> and a \<open>UUID\<close>
  are their printed text; an \<open>Enum\<close> member is its \<open>.value\<close>. \<open>PBinary\<close> is the
  transport library's binary wrapper; \<open>PObject\<close> is an instance of any other class.
  Dictionaries have string keys and keep insertion order.
\<close>

datatype pyval =
    PNone
  | PBool bool
  | PInt int
  | PFloat decimal
  | PDecimal decimal
  | PStr string
  | PBytes string
  | PBinary string
  | PDatetime string "(int \<times> string) option"
  | PDate string
  | PUUID string
  | PEnum pyval
  | PSet "pyval list"
  | PFrozenset "pyval list"
  | PList "pyval list"
  | PTuple "pyval list"
  | PDict "(string \<times> pyval) list"
  | PObject string

text \<open>
  The message of a \<open>DynamoSerializationError\<close> is an f-string over the field name,
  the \<open>repr\<close> of the value and the text of the caught error; it is kept as these parts.
\<close>

datatype ser_message =
    FailedField string pyval string
  | FailedValue pyval string

text \<open>
  Exceptions. \<open>ClientError\<close> is the transport's fault: its \<open>response["Error"]\<close>
  dictionary when present, and its \<open>str()\<close>. The library's own errors
  (\<^verbatim>\<open>exceptions.py\<close>) carry \<open>message\<close> and \<open>original_error\<close>.
\<close>

datatype py_exn =
    ClientError "(string \<times> string) list option" string
  | TypeError string
  | ValueError string
  | DecimalException string
  | PydanticValidationError string
  | DynanticError string "py_exn option"
  | TableNotFoundError string string "py_exn option"
  | ItemNotFoundError string "py_exn option"
  | ConditionalCheckFailedError "string option" string "py_exn option"
  | ProvisionedThroughputExceededError string "py_exn option"
  | ItemCollectionSizeLimitError string "py_exn option"
  | TransactionConflictError string "py_exn option"
  | RequestTimeoutError string "py_exn option"
  | ValidationError string "string option" "pyval option" "py_exn option"
  | DynamoSerializationError ser_message "py_exn option"

definition apostrophe :: string where
  "apostrophe = [CHR 0x27]"

text \<open>\<^verbatim>\<open>TableNotFoundError.__init__\<close>\<close>

definition new_TableNotFoundError :: "string \<Rightarrow> py_exn option \<Rightarrow> py_exn" where
  "new_TableNotFoundError table_name original_error =
     TableNotFoundError table_name
       (''Table '' @ apostrophe @ table_name @ apostrophe @ '' not found'') original_error"

text \<open>\<^verbatim>\<open>ConditionalCheckFailedError.__init__\<close>: an empty condition text is falsy.\<close>

definition new_ConditionalCheckFailedError :: "string option \<Rightarrow> py_exn option \<Rightarrow> py_exn" where
  "new_ConditionalCheckFailedError condition original_error =
     ConditionalCheckFailedError condition
       (case condition of
          None \<Rightarrow> ''Conditional check failed''
        | Some c \<Rightarrow> (if c = [] then ''Conditional check failed''
                    else ''Conditional check failed: '' @ c))
       original_error"

section \<open>Error translation (exceptions.py)\<close>

text \<open>\<^verbatim>\<open>e.response.get("Error", {}).get("Code", "Unknown")\<close>\<close>

definition error_code :: "(string \<times> string) list option \<Rightarrow> string" where
  "error_code response_error =
     (case response_error of
        None \<Rightarrow> ''Unknown''
      | Some d \<Rightarrow> (case map_of d ''Code'' of None \<Rightarrow> ''Unknown'' | Some c \<Rightarrow> c))"

text \<open>\<^verbatim>\<open>e.response.get("Error", {}).get("Message", str(e))\<close>\<close>

definition error_message :: "(string \<times> string) list option \<Rightarrow> string \<Rightarrow> string" where
  "error_message response_error text =
     (case response_error of
        None \<Rightarrow> text
      | Some d \<Rightarrow> (case map_of d ''Message'' of None \<Rightarrow> text | Some m \<Rightarrow> m))"

text \<open>
  \<^verbatim>\<open>handle_dynamo_errors\<close>: the exception that leaves the scope when \<open>exn\<close> is
  raised inside it. Only \<open>ClientError\<close> is caught; anything else propagates as it is.
\<close>

fun handle_dynamo_errors :: "string option \<Rightarrow> py_exn \<Rightarrow> py_exn" where
  "handle_dynamo_errors table_name (ClientError response_error text) =
     (let e = ClientError response_error text;
          code = error_code response_error;
          msg = error_message response_error text
      in if code = ''ResourceNotFoundException'' then
           new_TableNotFoundError
             (case table_name of None \<Rightarrow> ''unknown''
              | Some t \<Rightarrow> (if t = [] then ''unknown'' else t)) (Some e)
         else if code = ''ConditionalCheckFailedException'' then
           new_ConditionalCheckFailedError None (Some e)
         else if code \<in> set [''ProvisionedThroughputExceededException'',
                              ''ThrottlingException'', ''RequestLimitExceeded''] then
           ProvisionedThroughputExceededError msg (Some e)
         else if code \<in> set [''ValidationException'', ''SerializationException''] then
           ValidationError msg None None (Some e)
         else if code = ''ItemCollectionSizeLimitExceededException'' then
           ItemCollectionSizeLimitError msg (Some e)
         else if code = ''TransactionConflictException'' then
           TransactionConflictError msg (Some e)
         else if code \<in> set [''RequestTimeout'', ''RequestTimeoutException''] then
           RequestTimeoutError msg (Some e)
         else DynanticError (''DynamoDB error ('' @ code @ ''): '' @ msg) (Some e))"
| "handle_dynamo_errors table_name exn = exn"

text \<open>The closed taxonomy: every class deriving from \<open>DynanticError\<close>.\<close>

fun is_dynantic_error :: "py_exn \<Rightarrow> bool" where
  "is_dynantic_error (ClientError r t) = False"
| "is_dynantic_error (TypeError m) = False"
| "is_dynantic_error (ValueError m) = False"
| "is_dynantic_error (DecimalException m) = False"
| "is_dynantic_error (PydanticValidationError m) = False"
| "is_dynantic_error exn = True"

fun is_client_error :: "py_exn \<Rightarrow> bool" where
  "is_client_error (ClientError r t) = True"
| "is_client_error exn = False"

fun original_error :: "py_exn \<Rightarrow> py_exn option" where
  "original_error (DynanticError m oe) = oe"
| "original_error (TableNotFoundError t m oe) = oe"
| "original_error (ItemNotFoundError m oe) = oe"
| "original_error (ConditionalCheckFailedError c m oe) = oe"
| "original_error (ProvisionedThroughputExceededError m oe) = oe"
| "original_error (ItemCollectionSizeLimitError m oe) = oe"
| "original_error (TransactionConflictError m oe) = oe"
| "original_error (RequestTimeoutError m oe) = oe"
| "original_error (ValidationError m f v oe) = oe"
| "original_error (DynamoSerializationError m oe) = oe"
| "original_error exn = None"

text \<open>The fault codes the translator recognises.\<close>

definition recognized_codes :: "string list" where
  "recognized_codes =
     [''ResourceNotFoundException'', ''ConditionalCheckFailedException'',
      ''ProvisionedThroughputExceededException'', ''ThrottlingException'',
      ''RequestLimitExceeded'', ''ValidationException'', ''SerializationException'',
      ''ItemCollectionSizeLimitExceededException'', ''TransactionConflictException'',
      ''RequestTimeout'', ''RequestTimeoutException'']"

section \<open>Decimal arithmetic the serializer relies on\<close>

text \<open>The number of decimal digits of a coefficient.\<close>

fun ndigits :: "nat \<Rightarrow> nat" where
  "ndigits n = (if n < 10 then 1 else Suc (ndigits (n div 10)))"

declare ndigits.simps [simp del]

text \<open>
  \<^verbatim>\<open>DYNAMODB_CONTEXT.create_decimal\<close> of the transport library: a context of
  precision 38 with exponents between \<open>-128\<close> and \<open>126\<close> that traps every rounding,
  clamping, overflow and underflow. A finite value passes unchanged when its coefficient
  has at most 38 digits, its exponent is at least \<open>-165\<close> and its adjusted exponent is
  at most \<open>126\<close>; otherwise a decimal exception is raised. Special values pass.
\<close>

fun create_decimal :: "decimal \<Rightarrow> py_exn + decimal" where
  "create_decimal (Dec m e) =
     (if m = 0 then
        (if e < -165 \<or> 126 < e then Inl (DecimalException ''Clamped'') else Inr (Dec m e))
      else if 126 < int (ndigits (nat \<bar>m\<bar>)) + e - 1 then Inl (DecimalException ''Overflow'')
      else if 38 < ndigits (nat \<bar>m\<bar>) \<or> e < -165 then Inl (DecimalException ''Rounded'')
      else Inr (Dec m e))"
| "create_decimal d = Inr d"

text \<open>The integer part of \<open>|m * 10^e|\<close> and whether the fractional part is zero.\<close>

definition int_part :: "int \<Rightarrow> int \<Rightarrow> int" where
  "int_part m e = (if 0 \<le> e then \<bar>m\<bar> * 10 ^ nat e else \<bar>m\<bar> div 10 ^ nat (- e))"

definition frac_zero :: "int \<Rightarrow> int \<Rightarrow> bool" where
  "frac_zero m e = (0 \<le> e \<or> \<bar>m\<bar> mod 10 ^ nat (- e) = 0)"

section \<open>The transport library's type serializer\<close>

text \<open>
  The store's tagged wire values. The payload of \<open>N\<close> is the decimal's text; the model
  keeps the decimal that the text denotes.
\<close>

datatype wire =
    WNull
  | WBool bool
  | WN decimal
  | WS string
  | WB string
  | WSS "string list"
  | WNS "decimal list"
  | WBS "string list"
  | WL "wire list"
  | WM "(string \<times> wire) list"

text \<open>\<^verbatim>\<open>TypeSerializer._is_number\<close>: \<open>bool\<close> is an \<open>int\<close>; a \<open>float\<close> raises.\<close>

fun is_number :: "pyval \<Rightarrow> py_exn + bool" where
  "is_number (PInt n) = Inr True"
| "is_number (PBool b) = Inr True"
| "is_number (PDecimal d) = Inr True"
| "is_number (PFloat d) =
     Inl (TypeError ''Float types are not supported. Use Decimal types instead.'')"
| "is_number v = Inr False"

fun is_string :: "pyval \<Rightarrow> py_exn + bool" where
  "is_string (PStr s) = Inr True"
| "is_string v = Inr False"

fun is_binary :: "pyval \<Rightarrow> py_exn + bool" where
  "is_binary (PBytes b) = Inr True"
| "is_binary (PBinary b) = Inr True"
| "is_binary v = Inr False"

text \<open>\<^verbatim>\<open>False not in map(type_validator, value)\<close>, stopping at the first \<open>False\<close>.\<close>

fun all_valid :: "(pyval \<Rightarrow> py_exn + bool) \<Rightarrow> pyval list \<Rightarrow> py_exn + bool" where
  "all_valid f [] = Inr True"
| "all_valid f (x # xs) =
     (case f x of
        Inl e \<Rightarrow> Inl e
      | Inr ok \<Rightarrow> (if ok then all_valid f xs else Inr False))"

fun number_decimal :: "pyval \<Rightarrow> decimal" where
  "number_decimal (PInt n) = Dec n 0"
| "number_decimal (PBool b) = Dec (if b then 1 else 0) 0"
| "number_decimal (PDecimal d) = d"
| "number_decimal v = DNaN"

text \<open>\<^verbatim>\<open>TypeSerializer._serialize_n\<close>\<close>

definition serialize_n :: "decimal \<Rightarrow> py_exn + decimal" where
  "serialize_n d =
     (case create_decimal d of
        Inl e \<Rightarrow> Inl e
      | Inr c \<Rightarrow>
          (if c = DNaN \<or> c = DInfinity False
           then Inl (TypeError ''Infinity and NaN not supported'')
           else Inr c))"

fun serialize_ns :: "pyval list \<Rightarrow> py_exn + decimal list" where
  "serialize_ns [] = Inr []"
| "serialize_ns (x # xs) =
     (case serialize_n (number_decimal x) of
        Inl e \<Rightarrow> Inl e
      | Inr d \<Rightarrow> (case serialize_ns xs of Inl e \<Rightarrow> Inl e | Inr ds \<Rightarrow> Inr (d # ds)))"

fun payload :: "pyval \<Rightarrow> string" where
  "payload (PStr s) = s"
| "payload (PBytes b) = b"
| "payload (PBinary b) = b"
| "payload v = []"

definition unsupported_type :: py_exn where
  "unsupported_type = TypeError ''Unsupported type''"

text \<open>The set branches of \<^verbatim>\<open>TypeSerializer._get_dynamodb_type\<close>, in its order.\<close>

definition serialize_set :: "pyval list \<Rightarrow> py_exn + wire" where
  "serialize_set xs =
     (case all_valid is_number xs of
        Inl e \<Rightarrow> Inl e
      | Inr isn \<Rightarrow>
          (if isn then
             (case serialize_ns xs of Inl e \<Rightarrow> Inl e | Inr ds \<Rightarrow> Inr (WNS ds))
           else
             (case all_valid is_string xs of
                Inl e \<Rightarrow> Inl e
              | Inr iss \<Rightarrow>
                  (if iss then Inr (WSS (map payload xs))
                   else
                     (case all_valid is_binary xs of
                        Inl e \<Rightarrow> Inl e
                      | Inr isb \<Rightarrow>
                          (if isb then Inr (WBS (map payload xs))
                           else Inl unsupported_type))))))"

text \<open>
  \<^verbatim>\<open>TypeSerializer.serialize\<close>: null, boolean, number, string, binary, the three
  set types, map, list-like, in that order; anything else is a \<open>TypeError\<close>.
\<close>

fun serialize :: "pyval \<Rightarrow> py_exn + wire"
  and serialize_list :: "pyval list \<Rightarrow> py_exn + wire list"
  and serialize_items :: "(string \<times> pyval) list \<Rightarrow> py_exn + (string \<times> wire) list" where
  "serialize PNone = Inr WNull"
| "serialize (PBool b) = Inr (WBool b)"
| "serialize (PInt n) =
     (case serialize_n (Dec n 0) of Inl e \<Rightarrow> Inl e | Inr d \<Rightarrow> Inr (WN d))"
| "serialize (PDecimal d) =
     (case serialize_n d of Inl e \<Rightarrow> Inl e | Inr c \<Rightarrow> Inr (WN c))"
| "serialize (PFloat d) =
     Inl (TypeError ''Float types are not supported. Use Decimal types instead.'')"
| "serialize (PStr s) = Inr (WS s)"
| "serialize (PBytes b) = Inr (WB b)"
| "serialize (PBinary b) = Inr (WB b)"
| "serialize (PSet xs) = serialize_set xs"
| "serialize (PFrozenset xs) = serialize_set xs"
| "serialize (PDict kvs) =
     (case serialize_items kvs of Inl e \<Rightarrow> Inl e | Inr ws \<Rightarrow> Inr (WM ws))"
| "serialize (PList xs) =
     (case serialize_list xs of Inl e \<Rightarrow> Inl e | Inr ws \<Rightarrow> Inr (WL ws))"
| "serialize (PTuple xs) =
     (case serialize_list xs of Inl e \<Rightarrow> Inl e | Inr ws \<Rightarrow> Inr (WL ws))"
| "serialize (PDatetime txt tz) = Inl unsupported_type"
| "serialize (PDate s) = Inl unsupported_type"
| "serialize (PUUID s) = Inl unsupported_type"
| "serialize (PEnum v) = Inl unsupported_type"
| "serialize (PObject c) = Inl unsupported_type"
| "serialize_list [] = Inr []"
| "serialize_list (x # xs) =
     (case serialize x of
        Inl e \<Rightarrow> Inl e
      | Inr w \<Rightarrow> (case serialize_list xs of Inl e \<Rightarrow> Inl e | Inr ws \<Rightarrow> Inr (w # ws)))"
| "serialize_items [] = Inr []"
| "serialize_items (kv # kvs) =
     (case serialize (snd kv) of
        Inl e \<Rightarrow> Inl e
      | Inr w \<Rightarrow>
          (case serialize_items kvs of
             Inl e \<Rightarrow> Inl e
           | Inr ws \<Rightarrow> Inr ((fst kv, w) # ws)))"

text \<open>\<^verbatim>\<open>TypeDeserializer.deserialize\<close>: numbers come back as \<open>Decimal\<close>, binary as
  the library's wrapper, the set types as sets.\<close>

fun deserialize_ns :: "decimal list \<Rightarrow> py_exn + pyval list" where
  "deserialize_ns [] = Inr []"
| "deserialize_ns (d # ds) =
     (case create_decimal d of
        Inl e \<Rightarrow> Inl e
      | Inr c \<Rightarrow>
          (case deserialize_ns ds of Inl e \<Rightarrow> Inl e | Inr vs \<Rightarrow> Inr (PDecimal c # vs)))"

fun deserialize :: "wire \<Rightarrow> py_exn + pyval"
  and deserialize_list :: "wire list \<Rightarrow> py_exn + pyval list"
  and deserialize_items :: "(string \<times> wire) list \<Rightarrow> py_exn + (string \<times> pyval) list" where
  "deserialize WNull = Inr PNone"
| "deserialize (WBool b) = Inr (PBool b)"
| "deserialize (WN d) =
     (case create_decimal d of Inl e \<Rightarrow> Inl e | Inr c \<Rightarrow> Inr (PDecimal c))"
| "deserialize (WS s) = Inr (PStr s)"
| "deserialize (WB b) = Inr (PBinary b)"
| "deserialize (WSS ss) = Inr (PSet (map PStr ss))"
| "deserialize (WNS ds) =
     (case deserialize_ns ds of Inl e \<Rightarrow> Inl e | Inr vs \<Rightarrow> Inr (PSet vs))"
| "deserialize (WBS bs) = Inr (PSet (map PBinary bs))"
| "deserialize (WL ws) =
     (case deserialize_list ws of Inl e \<Rightarrow> Inl e | Inr vs \<Rightarrow> Inr (PList vs))"
| "deserialize (WM kws) =
     (case deserialize_items kws of Inl e \<Rightarrow> Inl e | Inr kvs \<Rightarrow> Inr (PDict kvs))"
| "deserialize_list [] = Inr []"
| "deserialize_list (w # ws) =
     (case deserialize w of
        Inl e \<Rightarrow> Inl e
      | Inr v \<Rightarrow> (case deserialize_list ws of Inl e \<Rightarrow> Inl e | Inr vs \<Rightarrow> Inr (v # vs)))"
| "deserialize_items [] = Inr []"
| "deserialize_items (kw # kws) =
     (case deserialize (snd kw) of
        Inl e \<Rightarrow> Inl e
      | Inr v \<Rightarrow>
          (case deserialize_items kws of
             Inl e \<Rightarrow> Inl e
           | Inr kvs \<Rightarrow> Inr ((fst kw, v) # kvs)))"

section \<open>DynamoSerializer (serializer.py)\<close>

text \<open>Whether Python can hash the value, as a set element must be.\<close>

fun hashable :: "pyval \<Rightarrow> bool" where
  "hashable (PSet xs) = False"
| "hashable (PList xs) = False"
| "hashable (PDict kvs) = False"
| "hashable (PTuple xs) = (\<forall>x \<in> set xs. hashable x)"
| "hashable v = True"

text \<open>
  \<^verbatim>\<open>_prepare_for_dynamo\<close>. The set comprehension builds a \<open>set\<close>, so it raises a
  \<open>TypeError\<close> when a prepared element cannot be hashed. An \<open>Enum\<close> member is replaced
  by its value without further preparation; a tuple is returned as it is.
\<close>

fun prepare_for_dynamo :: "pyval \<Rightarrow> py_exn + pyval"
  and prepare_list :: "pyval list \<Rightarrow> py_exn + pyval list"
  and prepare_items :: "(string \<times> pyval) list \<Rightarrow> py_exn + (string \<times> pyval) list" where
  "prepare_for_dynamo (PFloat d) = Inr (PDecimal d)"
| "prepare_for_dynamo (PDatetime txt tz) =
     (case tz of
        None \<Rightarrow> Inr (PStr txt)
      | Some os \<Rightarrow> (if fst os = 0 then Inr (PStr (txt @ ''Z'')) else Inr (PStr (txt @ snd os))))"
| "prepare_for_dynamo (PDate s) = Inr (PStr s)"
| "prepare_for_dynamo (PUUID s) = Inr (PStr s)"
| "prepare_for_dynamo (PEnum v) = Inr v"
| "prepare_for_dynamo (PBytes b) = Inr (PBytes b)"
| "prepare_for_dynamo (PSet xs) =
     (case prepare_list xs of
        Inl e \<Rightarrow> Inl e
      | Inr ys \<Rightarrow> (if \<forall>y \<in> set ys. hashable y then Inr (PSet ys)
                   else Inl (TypeError ''unhashable type'')))"
| "prepare_for_dynamo (PFrozenset xs) =
     (case prepare_list xs of
        Inl e \<Rightarrow> Inl e
      | Inr ys \<Rightarrow> (if \<forall>y \<in> set ys. hashable y then Inr (PSet ys)
                   else Inl (TypeError ''unhashable type'')))"
| "prepare_for_dynamo (PList xs) =
     (case prepare_list xs of Inl e \<Rightarrow> Inl e | Inr ys \<Rightarrow> Inr (PList ys))"
| "prepare_for_dynamo (PDict kvs) =
     (case prepare_items kvs of Inl e \<Rightarrow> Inl e | Inr kys \<Rightarrow> Inr (PDict kys))"
| "prepare_for_dynamo PNone = Inr PNone"
| "prepare_for_dynamo (PBool b) = Inr (PBool b)"
| "prepare_for_dynamo (PInt n) = Inr (PInt n)"
| "prepare_for_dynamo (PDecimal d) = Inr (PDecimal d)"
| "prepare_for_dynamo (PStr s) = Inr (PStr s)"
| "prepare_for_dynamo (PBinary b) = Inr (PBinary b)"
| "prepare_for_dynamo (PTuple xs) = Inr (PTuple xs)"
| "prepare_for_dynamo (PObject c) = Inr (PObject c)"
| "prepare_list [] = Inr []"
| "prepare_list (x # xs) =
     (case prepare_for_dynamo x of
        Inl e \<Rightarrow> Inl e
      | Inr y \<Rightarrow> (case prepare_list xs of Inl e \<Rightarrow> Inl e | Inr ys \<Rightarrow> Inr (y # ys)))"
| "prepare_items [] = Inr []"
| "prepare_items (kv # kvs) =
     (case prepare_for_dynamo (snd kv) of
        Inl e \<Rightarrow> Inl e
      | Inr y \<Rightarrow>
          (case prepare_items kvs of
             Inl e \<Rightarrow> Inl e
           | Inr kys \<Rightarrow> Inr ((fst kv, y) # kys)))"

text \<open>
  \<^verbatim>\<open>value % 1 == 0\<close> on a \<open>Decimal\<close> under the default context (precision 28):
  the remainder raises when the integer quotient has more than 28 digits, and on an
  infinity; a NaN is not equal to zero. A whole number becomes an \<open>int\<close>, anything
  else the \<open>float\<close> nearest to the decimal.
\<close>

fun restore_decimal :: "decimal \<Rightarrow> py_exn + pyval" where
  "restore_decimal (Dec m e) =
     (if m = 0 then Inr (PInt 0)
      else if 10 ^ 28 \<le> int_part m e then Inl (DecimalException ''DivisionImpossible'')
      else if frac_zero m e then Inr (PInt (sgn m * int_part m e))
      else Inr (PFloat (Dec m e)))"
| "restore_decimal DNaN = Inr (PFloat DNaN)"
| "restore_decimal (DInfinity neg) = Inl (DecimalException ''InvalidOperation'')"

text \<open>\<^verbatim>\<open>_restore_to_python\<close>: decimals, lists and dictionaries; sets are not entered.\<close>

fun restore_to_python :: "pyval \<Rightarrow> py_exn + pyval"
  and restore_list :: "pyval list \<Rightarrow> py_exn + pyval list"
  and restore_items :: "(string \<times> pyval) list \<Rightarrow> py_exn + (string \<times> pyval) list" where
  "restore_to_python (PDecimal d) = restore_decimal d"
| "restore_to_python (PList xs) =
     (case restore_list xs of Inl e \<Rightarrow> Inl e | Inr ys \<Rightarrow> Inr (PList ys))"
| "restore_to_python (PDict kvs) =
     (case restore_items kvs of Inl e \<Rightarrow> Inl e | Inr kys \<Rightarrow> Inr (PDict kys))"
| "restore_to_python PNone = Inr PNone"
| "restore_to_python (PBool b) = Inr (PBool b)"
| "restore_to_python (PInt n) = Inr (PInt n)"
| "restore_to_python (PFloat d) = Inr (PFloat d)"
| "restore_to_python (PStr s) = Inr (PStr s)"
| "restore_to_python (PBytes b) = Inr (PBytes b)"
| "restore_to_python (PBinary b) = Inr (PBinary b)"
| "restore_to_python (PDatetime txt tz) = Inr (PDatetime txt tz)"
| "restore_to_python (PDate s) = Inr (PDate s)"
| "restore_to_python (PUUID s) = Inr (PUUID s)"
| "restore_to_python (PEnum v) = Inr (PEnum v)"
| "restore_to_python (PSet xs) = Inr (PSet xs)"
| "restore_to_python (PFrozenset xs) = Inr (PFrozenset xs)"
| "restore_to_python (PTuple xs) = Inr (PTuple xs)"
| "restore_to_python (PObject c) = Inr (PObject c)"
| "restore_list [] = Inr []"
| "restore_list (x # xs) =
     (case restore_to_python x of
        Inl e \<Rightarrow> Inl e
      | Inr y \<Rightarrow> (case restore_list xs of Inl e \<Rightarrow> Inl e | Inr ys \<Rightarrow> Inr (y # ys)))"
| "restore_items [] = Inr []"
| "restore_items (kv # kvs) =
     (case restore_to_python (snd kv) of
        Inl e \<Rightarrow> Inl e
      | Inr y \<Rightarrow>
          (case restore_items kvs of
             Inl e \<Rightarrow> Inl e
           | Inr kys \<Rightarrow> Inr ((fst kv, y) # kys)))"

text \<open>\<^verbatim>\<open>isinstance(v, (set, frozenset)) and len(v) == 0\<close>\<close>

fun is_empty_set :: "pyval \<Rightarrow> bool" where
  "is_empty_set (PSet xs) = (xs = [])"
| "is_empty_set (PFrozenset xs) = (xs = [])"
| "is_empty_set v = False"

text \<open>The text of a caught \<open>TypeError\<close>.\<close>

fun exn_text :: "py_exn \<Rightarrow> string" where
  "exn_text (TypeError m) = m"
| "exn_text exn = []"

fun is_type_error :: "py_exn \<Rightarrow> bool" where
  "is_type_error (TypeError m) = True"
| "is_type_error exn = False"

text \<open>
  The loop of \<^verbatim>\<open>to_dynamo\<close> over the prepared dictionary: a \<open>TypeError\<close> of the
  type serializer becomes a \<open>DynamoSerializationError\<close> naming the field (any other
  exception propagates), and a field holding an empty set is not stored in the result.
  The keys of a dictionary are distinct, so each \<^verbatim>\<open>result[k] = ...\<close> adds a new entry.
\<close>

fun to_dynamo_loop :: "(string \<times> pyval) list \<Rightarrow> py_exn + (string \<times> wire) list" where
  "to_dynamo_loop [] = Inr []"
| "to_dynamo_loop (kv # kvs) =
     (case serialize (snd kv) of
        Inl e \<Rightarrow>
          (if is_type_error e
           then Inl (DynamoSerializationError (FailedField (fst kv) (snd kv) (exn_text e)) (Some e))
           else Inl e)
      | Inr serialized \<Rightarrow>
          (case to_dynamo_loop kvs of
             Inl e \<Rightarrow> Inl e
           | Inr result \<Rightarrow>
               (if \<not> is_empty_set (snd kv) then Inr ((fst kv, serialized) # result)
                else Inr result)))"

text \<open>\<^verbatim>\<open>DynamoSerializer.to_dynamo\<close>\<close>

definition to_dynamo :: "(string \<times> pyval) list \<Rightarrow> py_exn + (string \<times> wire) list" where
  "to_dynamo data =
     (case prepare_items data of
        Inl e \<Rightarrow> Inl e
      | Inr clean_data \<Rightarrow> to_dynamo_loop clean_data)"

text \<open>\<^verbatim>\<open>DynamoSerializer.to_dynamo_value\<close>\<close>

definition to_dynamo_value :: "pyval \<Rightarrow> py_exn + wire" where
  "to_dynamo_value v =
     (case prepare_for_dynamo v of
        Inl e \<Rightarrow> Inl e
      | Inr clean_value \<Rightarrow>
          (case serialize clean_value of
             Inl e \<Rightarrow>
               (if is_type_error e
                then Inl (DynamoSerializationError (FailedValue v (exn_text e)) (Some e))
                else Inl e)
           | Inr result \<Rightarrow> Inr result))"

text \<open>\<^verbatim>\<open>DynamoSerializer.from_dynamo\<close>\<close>

definition from_dynamo :: "(string \<times> wire) list \<Rightarrow> py_exn + (string \<times> pyval) list" where
  "from_dynamo item =
     (case deserialize_items item of
        Inl e \<Rightarrow> Inl e
      | Inr python_data \<Rightarrow> restore_items python_data)"

text \<open>\<^verbatim>\<open>type(e).__name__\<close>\<close>

fun class_name :: "py_exn \<Rightarrow> string" where
  "class_name (ClientError r t) = ''ClientError''"
| "class_name (TypeError m) = ''TypeError''"
| "class_name (ValueError m) = ''ValueError''"
| "class_name (DecimalException m) = ''DecimalException''"
| "class_name (PydanticValidationError m) = ''ValidationError''"
| "class_name (DynanticError m oe) = ''DynanticError''"
| "class_name (TableNotFoundError t m oe) = ''TableNotFoundError''"
| "class_name (ItemNotFoundError m oe) = ''ItemNotFoundError''"
| "class_name (ConditionalCheckFailedError c m oe) = ''ConditionalCheckFailedError''"
| "class_name (ProvisionedThroughputExceededError m oe) = ''ProvisionedThroughputExceededError''"
| "class_name (ItemCollectionSizeLimitError m oe) = ''ItemCollectionSizeLimitError''"
| "class_name (TransactionConflictError m oe) = ''TransactionConflictError''"
| "class_name (RequestTimeoutError m oe) = ''RequestTimeoutError''"
| "class_name (ValidationError m f v oe) = ''ValidationError''"
| "class_name (DynamoSerializationError m oe) = ''DynamoSerializationError''"

text \<open>A transport fault with the given code, as the tests build it.\<close>

definition fault_of :: "string \<Rightarrow> py_exn" where
  "fault_of code = ClientError (Some [(''Code'', code), (''Message'', ''boom'')]) ''text''"

section \<open>Round trip through the wire format\<close>

text \<open>\<^verbatim>\<open>from_dynamo(to_dynamo(data))\<close>\<close>

definition roundtrip :: "(string \<times> pyval) list \<Rightarrow> py_exn + (string \<times> pyval) list" where
  "roundtrip data = (case to_dynamo data of Inl e \<Rightarrow> Inl e | Inr item \<Rightarrow> from_dynamo item)"

text \<open>The decimal passes the store's number context unchanged.\<close>

definition fits_store :: "decimal \<Rightarrow> bool" where
  "fits_store d = (create_decimal d = Inr d)"

text \<open>\<^verbatim>\<open>isinstance(v, str)\<close>\<close>

fun is_str :: "pyval \<Rightarrow> bool" where
  "is_str (PStr s) = True"
| "is_str v = False"

text \<open>
  The values that come back from the wire format as they went in: \<open>None\<close>, booleans,
  integers below \<open>10^28\<close> in magnitude, strings, floats with a non-zero fractional part
  that fit the store's number format, sets of strings, and lists and dictionaries of
  such values.
\<close>

fun stable :: "pyval \<Rightarrow> bool" where
  "stable PNone = True"
| "stable (PBool b) = True"
| "stable (PInt n) = (\<bar>n\<bar> < 10 ^ 28)"
| "stable (PFloat (Dec m e)) =
     (fits_store (Dec m e) \<and> m \<noteq> 0 \<and> \<not> frac_zero m e \<and> int_part m e < 10 ^ 28)"
| "stable (PStr s) = True"
| "stable (PSet xs) = (\<forall>x \<in> set xs. is_str x)"
| "stable (PList xs) = (\<forall>x \<in> set xs. stable x)"
| "stable (PDict kvs) = (\<forall>kv \<in> set kvs. stable (snd kv))"
| "stable v = False"

text \<open>
  The value is prepared, serialized, deserialized and restored without an error, and
  comes back as it was.
\<close>

definition passes :: "pyval \<Rightarrow> bool" where
  "passes v = (\<exists>c w p. prepare_for_dynamo v = Inr c \<and> serialize c = Inr w \<and>
                 deserialize w = Inr p \<and> restore_to_python p = Inr v \<and>
                 (is_empty_set c \<longrightarrow> is_empty_set v))"

text \<open>A nested item as the serializer's tests build it.\<close>

definition sample_value :: pyval where
  "sample_value =
     PDict [(''name'', PStr ''Alice''), (''age'', PInt 25), (''active'', PBool True),
            (''scores'', PList [PFloat (Dec 955 (- 1)), PFloat (Dec 872 (- 1))]),
            (''tags'', PSet [PStr ''premium'', PStr ''verified'']),
            (''nothing'', PNone)]"

section \<open>Model metadata (config.py)\<close>

record gsi_definition =
  gsi_index_name :: string
  gsi_pk_name :: string
  gsi_pk_type :: string
  gsi_sk_name :: "string option"
  gsi_sk_type :: string
  gsi_projection_type :: string

text \<open>
  \<^verbatim>\<open>ModelOptions\<close>. A model class is referred to by its name; the entity registry maps
  a discriminator value to the class registered for it.
\<close>

record model_options =
  table_name :: string
  pk_name :: string
  sk_name :: "string option"
  region :: string
  gsi_definitions :: "(string \<times> gsi_definition) list"
  discriminator_field :: "string option"
  entity_registry :: "(string \<times> string) list"
  is_base_entity :: bool
  parent_model :: "string option"
  discriminator_value :: "string option"

definition get_gsi :: "model_options \<Rightarrow> string \<Rightarrow> gsi_definition option" where
  "get_gsi config index_name = map_of (gsi_definitions config) index_name"

definition has_gsi :: "model_options \<Rightarrow> string \<Rightarrow> bool" where
  "has_gsi config index_name = (index_name \<in> fst ` set (gsi_definitions config))"

definition is_polymorphic :: "model_options \<Rightarrow> bool" where
  "is_polymorphic config = (discriminator_field config \<noteq> None)"

text \<open>
  \<^verbatim>\<open>get_entity_class\<close> is \<^verbatim>\<open>entity_registry.get(value)\<close>: a dictionary lookup
  hashes its key, so a list, set or dictionary raises a \<open>TypeError\<close>; the registry's
  keys are strings, so no other value than a string finds an entry.
\<close>

fun get_entity_class :: "model_options \<Rightarrow> pyval \<Rightarrow> py_exn + string option" where
  "get_entity_class config (PStr s) = Inr (map_of (entity_registry config) s)"
| "get_entity_class config v =
     (if hashable v then Inr None else Inl (TypeError ''unhashable type''))"

text \<open>\<^verbatim>\<open>register_entity\<close>\<close>

definition register_entity :: "model_options \<Rightarrow> string \<Rightarrow> string \<Rightarrow> py_exn + model_options" where
  "register_entity config value entity_class =
     (case map_of (entity_registry config) value of
        Some existing \<Rightarrow>
          Inl (ValueError (''Discriminator value '' @ apostrophe @ value @ apostrophe @
                 '' is already registered to '' @ existing @ '', cannot register '' @
                 entity_class))
      | None \<Rightarrow>
          Inr (config\<lparr>entity_registry := entity_registry config @ [(value, entity_class)]\<rparr>))"

section \<open>Python truth values\<close>

fun truthy_decimal :: "decimal \<Rightarrow> bool" where
  "truthy_decimal (Dec m e) = (m \<noteq> 0)"
| "truthy_decimal d = True"

fun truthy :: "pyval \<Rightarrow> bool" where
  "truthy PNone = False"
| "truthy (PBool b) = b"
| "truthy (PInt n) = (n \<noteq> 0)"
| "truthy (PFloat d) = truthy_decimal d"
| "truthy (PDecimal d) = truthy_decimal d"
| "truthy (PStr s) = (s \<noteq> [])"
| "truthy (PBytes b) = (b \<noteq> [])"
| "truthy (PBinary b) = (b \<noteq> [])"
| "truthy (PSet xs) = (xs \<noteq> [])"
| "truthy (PFrozenset xs) = (xs \<noteq> [])"
| "truthy (PList xs) = (xs \<noteq> [])"
| "truthy (PTuple xs) = (xs \<noteq> [])"
| "truthy (PDict kvs) = (kvs \<noteq> [])"
| "truthy v = True"

definition truthy_str :: "string option \<Rightarrow> bool" where
  "truthy_str s = (case s of None \<Rightarrow> False | Some t \<Rightarrow> t \<noteq> [])"

section \<open>Model classes and polymorphic item resolution (base.py)\<close>

record field_info =
  fi_alias :: "string option"
  fi_annotation :: string

record model_class =
  cls_name :: string
  cls_meta :: model_options
  model_fields :: "(string \<times> field_info) list"

text \<open>An instance of a model class: its concrete type and its validated fields.\<close>

datatype model_instance = Instance (instance_class: string) (instance_fields: "(string \<times> pyval) list")

text \<open>
  \<^verbatim>\<open>cls(**raw_data)\<close>. The validation layer is outside the repository: it is the
  parameter \<open>layer\<close>, which for a class and a raw field map gives the validated fields
  or raises. What it accepts becomes an instance of the class that was called.
\<close>

definition construct ::
  "(string \<Rightarrow> (string \<times> pyval) list \<Rightarrow> py_exn + (string \<times> pyval) list) \<Rightarrow>
   string \<Rightarrow> (string \<times> pyval) list \<Rightarrow> py_exn + model_instance" where
  "construct layer cls raw_data =
     (case layer cls raw_data of Inl e \<Rightarrow> Inl e | Inr validated \<Rightarrow> Inr (Instance cls validated))"

text \<open>\<^verbatim>\<open>DynamoModel._deserialize_item\<close>\<close>

definition deserialize_item ::
  "(string \<Rightarrow> (string \<times> pyval) list \<Rightarrow> py_exn + (string \<times> pyval) list) \<Rightarrow>
   model_class \<Rightarrow> (string \<times> pyval) list \<Rightarrow> py_exn + model_instance" where
  "deserialize_item layer cls raw_data =
     (let config = cls_meta cls in
      if is_base_entity config \<and> truthy_str (discriminator_field config) then
        (case discriminator_field config of
           None \<Rightarrow> construct layer (cls_name cls) raw_data
         | Some fld \<Rightarrow>
             (case map_of raw_data fld of
                None \<Rightarrow> construct layer (cls_name cls) raw_data
              | Some dv \<Rightarrow>
                  (if truthy dv then
                     (case get_entity_class config dv of
                        Inl e \<Rightarrow> Inl e
                      | Inr None \<Rightarrow> construct layer (cls_name cls) raw_data
                      | Inr (Some entity_class) \<Rightarrow> construct layer entity_class raw_data)
                   else construct layer (cls_name cls) raw_data)))
      else construct layer (cls_name cls) raw_data)"

text \<open>
  An example validation layer: every class requires the fields listed for it and accepts
  any further ones.
\<close>

definition required_fields_layer ::
  "(string \<times> string list) list \<Rightarrow> string \<Rightarrow> (string \<times> pyval) list \<Rightarrow>
   py_exn + (string \<times> pyval) list" where
  "required_fields_layer required cls raw_data =
     (case map_of required cls of
        None \<Rightarrow> Inr raw_data
      | Some fs \<Rightarrow>
          (if \<forall>f \<in> set fs. f \<in> fst ` set raw_data then Inr raw_data
           else Inl (PydanticValidationError ''Field required'')))"

text \<open>The polymorphic models of the repository's tests: a base table and two subtypes.\<close>

definition my_table_meta :: model_options where
  "my_table_meta =
     \<lparr>table_name = ''test'', pk_name = ''pk'', sk_name = None, region = ''us-east-1'',
      gsi_definitions = [], discriminator_field = Some ''entity_type'',
      entity_registry = [(''USER'', ''User''), (''ORDER'', ''Order'')],
      is_base_entity = True, parent_model = None, discriminator_value = None\<rparr>"

definition my_table :: model_class where
  "my_table =
     \<lparr>cls_name = ''MyTable'', cls_meta = my_table_meta,
      model_fields = [(''pk'', \<lparr>fi_alias = None, fi_annotation = ''str''\<rparr>),
                      (''entity_type'', \<lparr>fi_alias = None, fi_annotation = ''str''\<rparr>)]\<rparr>"

text \<open>A subtype as the metaclass and \<^verbatim>\<open>register\<close> leave it.\<close>

definition registered_subtype :: "model_class \<Rightarrow> string \<Rightarrow> string \<Rightarrow>
    (string \<times> field_info) list \<Rightarrow> model_class" where
  "registered_subtype base name value own_fields =
     \<lparr>cls_name = name,
      cls_meta = (cls_meta base)\<lparr>is_base_entity := False, parent_model := Some (cls_name base),
                                 discriminator_value := Some value\<rparr>,
      model_fields = model_fields base @ own_fields\<rparr>"

definition user_model :: model_class where
  "user_model = registered_subtype my_table ''User'' ''USER''
     [(''name'', \<lparr>fi_alias = None, fi_annotation = ''str''\<rparr>)]"

definition order_model :: model_class where
  "order_model = registered_subtype my_table ''Order'' ''ORDER''
     [(''amount'', \<lparr>fi_alias = None, fi_annotation = ''float''\<rparr>)]"

definition test_layer :: "string \<Rightarrow> (string \<times> pyval) list \<Rightarrow> py_exn + (string \<times> pyval) list" where
  "test_layer =
     required_fields_layer
       [(''MyTable'', [''pk'', ''entity_type'']),
        (''User'', [''pk'', ''entity_type'', ''name'']),
        (''Order'', [''pk'', ''entity_type'', ''amount''])]"

section \<open>Dictionaries and strings\<close>

text \<open>\<^verbatim>\<open>d[k] = v\<close> on an insertion-ordered dictionary.\<close>

fun dict_set :: "'k \<Rightarrow> 'v \<Rightarrow> ('k \<times> 'v) list \<Rightarrow> ('k \<times> 'v) list" where
  "dict_set k v [] = [(k, v)]"
| "dict_set k v (p # ps) = (if fst p = k then (k, v) # ps else p # dict_set k v ps)"

text \<open>\<^verbatim>\<open>d.update(other)\<close>, also \<^verbatim>\<open>{**d, **other}\<close>.\<close>

definition dict_update :: "('k \<times> 'v) list \<Rightarrow> ('k \<times> 'v) list \<Rightarrow> ('k \<times> 'v) list" where
  "dict_update d other = foldl (\<lambda>acc kv. dict_set (fst kv) (snd kv) acc) d other"

text \<open>\<^verbatim>\<open>sep.join(parts)\<close>\<close>

fun join :: "string \<Rightarrow> string list \<Rightarrow> string" where
  "join sep [] = []"
| "join sep [p] = p"
| "join sep (p # q # ps) = p @ sep @ join sep (q # ps)"

section \<open>Query and scan builders (query.py, scan.py)\<close>

text \<open>
  What \<^verbatim>\<open>compile_condition\<close> returns for a user filter. The condition compiler
  delegates to the transport library; it is the parameter \<open>compile\<close> of the functions
  below, over any type \<open>'c\<close> of conditions.
\<close>

record condition_params =
  cp_ConditionExpression :: string
  cp_ExpressionAttributeNames :: "(string \<times> string) list option"
  cp_ExpressionAttributeValues :: "(string \<times> wire) list option"

text \<open>The keyword arguments of the paginated \<open>query\<close> and \<open>scan\<close> requests.\<close>

record query_kwargs =
  qk_TableName :: string
  qk_KeyConditionExpression :: string
  qk_ExpressionAttributeValues :: "(string \<times> wire) list"
  qk_ExpressionAttributeNames :: "(string \<times> string) list"
  qk_ScanIndexForward :: bool
  qk_Limit :: "int option"
  qk_IndexName :: "string option"
  qk_FilterExpression :: "string option"

record scan_kwargs =
  sk_TableName :: string
  sk_IndexName :: "string option"
  sk_Limit :: "int option"
  sk_FilterExpression :: "string option"
  sk_ExpressionAttributeNames :: "(string \<times> string) list option"
  sk_ExpressionAttributeValues :: "(string \<times> wire) list option"

text \<open>\<^verbatim>\<open>DynamoQueryBuilder\<close>: the attributes \<^verbatim>\<open>__init__\<close> sets.\<close>

record 'c query_builder =
  qb_model_cls :: model_class
  qb_config :: model_options
  qb_pk_val :: pyval
  qb_sk_condition :: "string option"
  qb_limit_val :: "int option"
  qb_scan_forward :: bool
  qb_index_name :: "string option"
  qb_filter_conditions :: "string list"
  qb_filter_values :: "(string \<times> wire) list"
  qb_filter_names :: "(string \<times> string) list"
  qb_user_filter_condition :: "'c option"
  qb_pk_name :: string
  qb_sk_name :: "string option"
  qb_expression_values :: "(string \<times> wire) list"
  qb_expression_names :: "(string \<times> string) list"

text \<open>\<^verbatim>\<open>DynamoScanBuilder\<close>\<close>

record 'c scan_builder =
  sb_model_cls :: model_class
  sb_config :: model_options
  sb_limit_val :: "int option"
  sb_index_name :: "string option"
  sb_filter_conditions :: "string list"
  sb_filter_values :: "(string \<times> wire) list"
  sb_filter_names :: "(string \<times> string) list"
  sb_user_filter_condition :: "'c option"

definition undefined_gsi :: "string \<Rightarrow> model_class \<Rightarrow> py_exn" where
  "undefined_gsi index_name model_cls =
     ValueError (''GSI '' @ apostrophe @ index_name @ apostrophe @
       '' is not defined on model '' @ cls_name model_cls)"

text \<open>\<^verbatim>\<open>DynamoQueryBuilder._add_discriminator_filter\<close>\<close>

definition query_add_discriminator_filter :: "'c query_builder \<Rightarrow> py_exn + 'c query_builder" where
  "query_add_discriminator_filter b =
     (case (discriminator_field (qb_config b), discriminator_value (qb_config b)) of
        (Some disc_field, Some disc_value) \<Rightarrow>
          (case to_dynamo_value (PStr disc_value) of
             Inl e \<Rightarrow> Inl e
           | Inr w \<Rightarrow>
               Inr (b\<lparr>qb_filter_conditions := qb_filter_conditions b @ [''#disc = :disc_val''],
                      qb_filter_names := dict_set ''#disc'' disc_field (qb_filter_names b),
                      qb_filter_values := dict_set '':disc_val'' w (qb_filter_values b)\<rparr>))
      | _ \<Rightarrow> Inr b)"

text \<open>\<^verbatim>\<open>DynamoQueryBuilder.__init__\<close>\<close>

definition new_query_builder ::
  "model_class \<Rightarrow> pyval \<Rightarrow> string option \<Rightarrow> py_exn + 'c query_builder" where
  "new_query_builder model_cls pk_val index_name =
     (let config = cls_meta model_cls in
      case (if truthy_str index_name
            then (case get_gsi config (the index_name) of
                    None \<Rightarrow> Inl (undefined_gsi (the index_name) model_cls)
                  | Some gsi \<Rightarrow> Inr (gsi_pk_name gsi, gsi_sk_name gsi))
            else Inr (pk_name config, sk_name config)) of
        Inl e \<Rightarrow> Inl e
      | Inr keys \<Rightarrow>
          (case to_dynamo_value pk_val of
             Inl e \<Rightarrow> Inl e
           | Inr w \<Rightarrow>
               (let b = \<lparr>qb_model_cls = model_cls, qb_config = config, qb_pk_val = pk_val,
                          qb_sk_condition = None, qb_limit_val = None, qb_scan_forward = True,
                          qb_index_name = index_name, qb_filter_conditions = [],
                          qb_filter_values = [], qb_filter_names = [],
                          qb_user_filter_condition = None,
                          qb_pk_name = fst keys, qb_sk_name = snd keys,
                          qb_expression_values = [('':pk'', w)],
                          qb_expression_names = [(''#pk'', fst keys)]\<rparr>
                in if truthy_str (discriminator_value config) \<and>
                      truthy_str (discriminator_field config)
                   then query_add_discriminator_filter b
                   else Inr b)))"

text \<open>\<^verbatim>\<open>DynamoModel.query\<close>\<close>

definition query :: "model_class \<Rightarrow> pyval \<Rightarrow> py_exn + 'c query_builder" where
  "query cls pk_val = new_query_builder cls pk_val None"

text \<open>\<^verbatim>\<open>DynamoQueryBuilder._serialize_query_value\<close>\<close>

fun serialize_query_value :: "pyval \<Rightarrow> pyval" where
  "serialize_query_value (PDatetime txt tz) =
     (case tz of None \<Rightarrow> PStr txt | Some os \<Rightarrow> PStr (txt @ snd os))"
| "serialize_query_value (PDate s) = PStr s"
| "serialize_query_value (PUUID s) = PStr s"
| "serialize_query_value (PEnum v) = v"
| "serialize_query_value v = v"

text \<open>\<^verbatim>\<open>DynamoQueryBuilder.eq\<close>\<close>

definition query_eq :: "'c query_builder \<Rightarrow> pyval \<Rightarrow> py_exn + 'c query_builder" where
  "query_eq b val =
     (if \<not> truthy_str (qb_sk_name b) then
        Inl (ValueError ''Index does not have a Sort Key defined.'')
      else
        (case to_dynamo_value (serialize_query_value val) of
           Inl e \<Rightarrow> Inl e
         | Inr w \<Rightarrow>
             Inr (b\<lparr>qb_sk_condition := Some ''#sk = :sk'',
                    qb_expression_names := dict_set ''#sk'' (the (qb_sk_name b)) (qb_expression_names b),
                    qb_expression_values := dict_set '':sk'' w (qb_expression_values b)\<rparr>)))"

text \<open>\<^verbatim>\<open>DynamoQueryBuilder.limit\<close>\<close>

definition query_limit :: "'c query_builder \<Rightarrow> int \<Rightarrow> 'c query_builder" where
  "query_limit b count = b\<lparr>qb_limit_val := Some count\<rparr>"

text \<open>\<^verbatim>\<open>DynamoQueryBuilder.using_index\<close>\<close>

definition query_using_index :: "'c query_builder \<Rightarrow> string \<Rightarrow> py_exn + 'c query_builder" where
  "query_using_index b index_name =
     (case get_gsi (qb_config b) index_name of
        None \<Rightarrow> Inl (undefined_gsi index_name (qb_model_cls b))
      | Some gsi \<Rightarrow>
          (let names = dict_set ''#pk'' (gsi_pk_name gsi) (qb_expression_names b)
           in Inr (b\<lparr>qb_index_name := Some index_name,
                     qb_pk_name := gsi_pk_name gsi,
                     qb_sk_name := gsi_sk_name gsi,
                     qb_expression_names :=
                       (if truthy_str (gsi_sk_name gsi) \<and> ''#sk'' \<in> fst ` set names
                        then dict_set ''#sk'' (the (gsi_sk_name gsi)) names
                        else names)\<rparr>)))"

text \<open>\<^verbatim>\<open>DynamoScanBuilder._add_discriminator_filter\<close>\<close>

definition scan_add_discriminator_filter :: "'c scan_builder \<Rightarrow> py_exn + 'c scan_builder" where
  "scan_add_discriminator_filter b =
     (case (discriminator_field (sb_config b), discriminator_value (sb_config b)) of
        (Some disc_field, Some disc_value) \<Rightarrow>
          (case to_dynamo_value (PStr disc_value) of
             Inl e \<Rightarrow> Inl e
           | Inr w \<Rightarrow>
               Inr (b\<lparr>sb_filter_conditions := sb_filter_conditions b @ [''#disc = :disc_val''],
                      sb_filter_names := dict_set ''#disc'' disc_field (sb_filter_names b),
                      sb_filter_values := dict_set '':disc_val'' w (sb_filter_values b)\<rparr>))
      | _ \<Rightarrow> Inr b)"

text \<open>\<^verbatim>\<open>DynamoScanBuilder.__init__\<close>\<close>

definition new_scan_builder :: "model_class \<Rightarrow> string option \<Rightarrow> py_exn + 'c scan_builder" where
  "new_scan_builder model_cls index_name =
     (let config = cls_meta model_cls in
      if truthy_str index_name \<and> \<not> has_gsi config (the index_name) then
        Inl (undefined_gsi (the index_name) model_cls)
      else
        (let b = \<lparr>sb_model_cls = model_cls, sb_config = config, sb_limit_val = None,
                   sb_index_name = index_name, sb_filter_conditions = [],
                   sb_filter_values = [], sb_filter_names = [],
                   sb_user_filter_condition = None\<rparr>
         in if truthy_str (discriminator_value config) \<and> truthy_str (discriminator_field config)
            then scan_add_discriminator_filter b
            else Inr b))"

text \<open>\<^verbatim>\<open>DynamoScanBuilder.limit\<close>\<close>

definition scan_limit :: "'c scan_builder \<Rightarrow> int \<Rightarrow> 'c scan_builder" where
  "scan_limit b count = b\<lparr>sb_limit_val := Some count\<rparr>"

text \<open>\<^verbatim>\<open>DynamoScanBuilder.using_index\<close>\<close>

definition scan_using_index :: "'c scan_builder \<Rightarrow> string \<Rightarrow> py_exn + 'c scan_builder" where
  "scan_using_index b index_name =
     (if \<not> has_gsi (sb_config b) index_name then
        Inl (undefined_gsi index_name (sb_model_cls b))
      else Inr (b\<lparr>sb_index_name := Some index_name\<rparr>))"

section \<open>Lazy iteration over the pages\<close>

text \<open>How the body of the item loop leaves: to the next item, by \<open>return\<close>, or by raising.\<close>

datatype flow = Continue | Return | Raise py_exn

text \<open>\<^verbatim>\<open>self.limit_val and count >= self.limit_val\<close>: zero is falsy, as \<open>None\<close> is.\<close>

definition limit_reached :: "int option \<Rightarrow> int \<Rightarrow> bool" where
  "limit_reached limit_val count =
     (case limit_val of None \<Rightarrow> False | Some n \<Rightarrow> n \<noteq> 0 \<and> n \<le> count)"

text \<open>
  \<^verbatim>\<open>for item in page["Items"]\<close>: the item is materialised and yielded, the count is
  incremented, and the loop returns once the limit is reached. The result is the items
  yielded, the count, and how the loop left.
\<close>

fun items_loop ::
  "int option \<Rightarrow> ('w \<Rightarrow> py_exn + 'a) \<Rightarrow> int \<Rightarrow> 'w list \<Rightarrow> 'a list \<times> int \<times> flow" where
  "items_loop limit_val mk count [] = ([], count, Continue)"
| "items_loop limit_val mk count (item # rest) =
     (case mk item of
        Inl e \<Rightarrow> ([], count, Raise e)
      | Inr x \<Rightarrow>
          (if limit_reached limit_val (count + 1) then ([x], count + 1, Return)
           else (case items_loop limit_val mk (count + 1) rest of
                   (ys, c, fl) \<Rightarrow> (x # ys, c, fl))))"

text \<open>
  \<^verbatim>\<open>for page in paginator.paginate(**kwargs)\<close>. The paginator requests a page only
  when the loop asks for the next one; \<open>pages\<close> is what the store answers to the
  successive requests, a page of items or a fault. The result is the items yielded, the
  number of page requests issued, and how the iteration ended.
\<close>

fun pages_loop ::
  "int option \<Rightarrow> ('w \<Rightarrow> py_exn + 'a) \<Rightarrow> int \<Rightarrow> (py_exn + 'w list) list \<Rightarrow>
   'a list \<times> nat \<times> flow" where
  "pages_loop limit_val mk count [] = ([], 0, Continue)"
| "pages_loop limit_val mk count (pg # pgs) =
     (case pg of
        Inl e \<Rightarrow> ([], 1, Raise e)
      | Inr page_items \<Rightarrow>
          (case items_loop limit_val mk count page_items of
             (ys, c, fl) \<Rightarrow>
               (if fl = Continue then
                  (case pages_loop limit_val mk c pgs of
                     (zs, n, fl') \<Rightarrow> (ys @ zs, Suc n, fl'))
                else (ys, 1, fl))))"

text \<open>What a full traversal of the iterator gives.\<close>

record 'a iteration =
  yielded :: "'a list"
  page_requests :: nat
  raised :: "py_exn option"

text \<open>
  The body of the \<^verbatim>\<open>with handle_dynamo_errors(...)\<close> block shared by both
  \<^verbatim>\<open>__iter__\<close> methods: each raw item goes through \<^verbatim>\<open>from_dynamo\<close> and polymorphic
  item resolution, and an exception leaves through the error translation.
\<close>

definition materialise ::
  "(string \<Rightarrow> (string \<times> pyval) list \<Rightarrow> py_exn + (string \<times> pyval) list) \<Rightarrow>
   model_class \<Rightarrow> (string \<times> wire) list \<Rightarrow> py_exn + model_instance" where
  "materialise layer model_cls item =
     (case from_dynamo item of
        Inl e \<Rightarrow> Inl e
      | Inr raw_data \<Rightarrow> deserialize_item layer model_cls raw_data)"

definition iterate_pages ::
  "(string \<Rightarrow> (string \<times> pyval) list \<Rightarrow> py_exn + (string \<times> pyval) list) \<Rightarrow>
   model_class \<Rightarrow> int option \<Rightarrow> (py_exn + (string \<times> wire) list list) list \<Rightarrow>
   model_instance iteration" where
  "iterate_pages layer model_cls limit_val pages =
     (case pages_loop limit_val (materialise layer model_cls) 0 pages of
        (ys, n, fl) \<Rightarrow>
          \<lparr>yielded = ys, page_requests = n,
           raised = (case fl of
                       Raise e \<Rightarrow> Some (handle_dynamo_errors (Some (table_name (cls_meta model_cls))) e)
                     | _ \<Rightarrow> None)\<rparr>)"

text \<open>The filter expression both \<^verbatim>\<open>__iter__\<close> methods build: the parts, names, values.\<close>

definition filter_parts ::
  "('c \<Rightarrow> py_exn + condition_params) \<Rightarrow> string list \<Rightarrow> 'c option \<Rightarrow>
   (string \<times> string) list \<Rightarrow> (string \<times> wire) list \<Rightarrow>
   py_exn + (string list \<times> (string \<times> string) list \<times> (string \<times> wire) list)" where
  "filter_parts compile conditions user_filter all_names all_values =
     (case user_filter of
        None \<Rightarrow> Inr (conditions, all_names, all_values)
      | Some c \<Rightarrow>
          (case compile c of
             Inl e \<Rightarrow> Inl e
           | Inr params \<Rightarrow>
               Inr (conditions @ [cp_ConditionExpression params],
                    (case cp_ExpressionAttributeNames params of
                       None \<Rightarrow> all_names | Some ns \<Rightarrow> dict_update all_names ns),
                    (case cp_ExpressionAttributeValues params of
                       None \<Rightarrow> all_values | Some vs \<Rightarrow> dict_update all_values vs))))"

text \<open>The keyword arguments \<^verbatim>\<open>DynamoQueryBuilder.__iter__\<close> passes to the paginator.\<close>

definition query_iter_kwargs ::
  "('c \<Rightarrow> py_exn + condition_params) \<Rightarrow> 'c query_builder \<Rightarrow> py_exn + query_kwargs" where
  "query_iter_kwargs compile b =
     (let key_expr = (case qb_sk_condition b of
                        None \<Rightarrow> ''#pk = :pk''
                      | Some c \<Rightarrow> (if c = [] then ''#pk = :pk'' else ''#pk = :pk'' @ '' AND '' @ c));
          all_values = dict_update (qb_expression_values b) (qb_filter_values b);
          all_names = dict_update (qb_expression_names b) (qb_filter_names b);
          kwargs = \<lparr>qk_TableName = table_name (qb_config b),
                    qk_KeyConditionExpression = key_expr,
                    qk_ExpressionAttributeValues = all_values,
                    qk_ExpressionAttributeNames = all_names,
                    qk_ScanIndexForward = qb_scan_forward b,
                    qk_Limit = (case qb_limit_val b of
                                  None \<Rightarrow> None
                                | Some n \<Rightarrow> (if n \<noteq> 0 then Some n else None)),
                    qk_IndexName = (if truthy_str (qb_index_name b) then qb_index_name b else None),
                    qk_FilterExpression = None\<rparr>
      in if qb_filter_conditions b \<noteq> [] \<or> qb_user_filter_condition b \<noteq> None then
           (case filter_parts compile (qb_filter_conditions b) (qb_user_filter_condition b)
                   all_names all_values of
              Inl e \<Rightarrow> Inl e
            | Inr (parts, names, vals) \<Rightarrow>
                Inr (kwargs\<lparr>qk_FilterExpression := Some (join '' AND '' parts),
                            qk_ExpressionAttributeNames := names,
                            qk_ExpressionAttributeValues := vals\<rparr>))
         else Inr kwargs)"

text \<open>
  \<^verbatim>\<open>DynamoQueryBuilder.__iter__\<close>, traversed to its end. \<open>paginate\<close> is the store: the
  pages it answers to the requests built from the keyword arguments.
\<close>

definition query_iter ::
  "('c \<Rightarrow> py_exn + condition_params) \<Rightarrow>
   (query_kwargs \<Rightarrow> (py_exn + (string \<times> wire) list list) list) \<Rightarrow>
   (string \<Rightarrow> (string \<times> pyval) list \<Rightarrow> py_exn + (string \<times> pyval) list) \<Rightarrow>
   'c query_builder \<Rightarrow> model_instance iteration" where
  "query_iter compile paginate layer b =
     (case query_iter_kwargs compile b of
        Inl e \<Rightarrow> \<lparr>yielded = [], page_requests = 0, raised = Some e\<rparr>
      | Inr kwargs \<Rightarrow> iterate_pages layer (qb_model_cls b) (qb_limit_val b) (paginate kwargs))"

text \<open>The keyword arguments \<^verbatim>\<open>DynamoScanBuilder.__iter__\<close> passes to the paginator.\<close>

definition scan_iter_kwargs ::
  "('c \<Rightarrow> py_exn + condition_params) \<Rightarrow> 'c scan_builder \<Rightarrow> py_exn + scan_kwargs" where
  "scan_iter_kwargs compile b =
     (let kwargs = \<lparr>sk_TableName = table_name (sb_config b),
                    sk_IndexName = (if truthy_str (sb_index_name b) then sb_index_name b else None),
                    sk_Limit = (case sb_limit_val b of
                                  None \<Rightarrow> None
                                | Some n \<Rightarrow> (if n \<noteq> 0 then Some n else None)),
                    sk_FilterExpression = None,
                    sk_ExpressionAttributeNames = None,
                    sk_ExpressionAttributeValues = None\<rparr>
      in if sb_filter_conditions b \<noteq> [] \<or> sb_user_filter_condition b \<noteq> None then
           (case filter_parts compile (sb_filter_conditions b) (sb_user_filter_condition b)
                   (sb_filter_names b) (sb_filter_values b) of
              Inl e \<Rightarrow> Inl e
            | Inr (parts, names, vals) \<Rightarrow>
                Inr (kwargs\<lparr>sk_FilterExpression := Some (join '' AND '' parts),
                            sk_ExpressionAttributeNames := Some names,
                            sk_ExpressionAttributeValues := Some vals\<rparr>))
         else Inr kwargs)"

text \<open>\<^verbatim>\<open>DynamoScanBuilder.__iter__\<close>, traversed to its end.\<close>

definition scan_iter ::
  "('c \<Rightarrow> py_exn + condition_params) \<Rightarrow>
   (scan_kwargs \<Rightarrow> (py_exn + (string \<times> wire) list list) list) \<Rightarrow>
   (string \<Rightarrow> (string \<times> pyval) list \<Rightarrow> py_exn + (string \<times> pyval) list) \<Rightarrow>
   'c scan_builder \<Rightarrow> model_instance iteration" where
  "scan_iter compile paginate layer b =
     (case scan_iter_kwargs compile b of
        Inl e \<Rightarrow> \<lparr>yielded = [], page_requests = 0, raised = Some e\<rparr>
      | Inr kwargs \<Rightarrow> iterate_pages layer (sb_model_cls b) (sb_limit_val b) (paginate kwargs))"

text \<open>\<^verbatim>\<open>all()\<close> is \<^verbatim>\<open>list(self)\<close>: the items, unless the traversal raised.\<close>

definition all_items :: "'a iteration \<Rightarrow> py_exn + 'a list" where
  "all_items it = (case raised it of None \<Rightarrow> Inr (yielded it) | Some e \<Rightarrow> Inl e)"

text \<open>The number of items a page request returns; a fault returns none.\<close>

fun page_size :: "py_exn + 'w list \<Rightarrow> nat" where
  "page_size (Inl e) = 0"
| "page_size (Inr page_items) = length page_items"


text \<open>
  An example store and condition compiler for concrete runs: five items in pages of
  two, whatever is asked; a condition given by its expression text.
\<close>

definition stored_item :: "string \<Rightarrow> (string \<times> wire) list" where
  "stored_item k = [(''pk'', WS k)]"

definition sample_pages :: "(py_exn + (string \<times> wire) list list) list" where
  "sample_pages =
     [Inr [stored_item ''a'', stored_item ''b''],
      Inr [stored_item ''c'', stored_item ''d''],
      Inr [stored_item ''e'']]"

definition sample_paginate :: "'k \<Rightarrow> (py_exn + (string \<times> wire) list list) list" where
  "sample_paginate kwargs = sample_pages"

definition text_compile :: "string \<Rightarrow> py_exn + condition_params" where
  "text_compile c =
     Inr \<lparr>cp_ConditionExpression = c, cp_ExpressionAttributeNames = None,
          cp_ExpressionAttributeValues = None\<rparr>"

text \<open>A model without polymorphism, keyed by \<open>pk\<close>.\<close>

definition simple_model :: model_class where
  "simple_model =
     \<lparr>cls_name = ''SimpleModel'',
      cls_meta = \<lparr>table_name = ''simple'', pk_name = ''pk'', sk_name = None,
                  region = ''us-east-1'', gsi_definitions = [], discriminator_field = None,
                  entity_registry = [], is_base_entity = False, parent_model = None,
                  discriminator_value = None\<rparr>,
      model_fields = [(''pk'', \<lparr>fi_alias = None, fi_annotation = ''str''\<rparr>)]\<rparr>"

definition simple_query :: "string query_builder" where
  "simple_query =
     \<lparr>qb_model_cls = simple_model, qb_config = cls_meta simple_model,
      qb_pk_val = PStr ''a'', qb_sk_condition = None, qb_limit_val = None,
      qb_scan_forward = True, qb_index_name = None, qb_filter_conditions = [],
      qb_filter_values = [], qb_filter_names = [], qb_user_filter_condition = None,
      qb_pk_name = ''pk'', qb_sk_name = None,
      qb_expression_values = [('':pk'', WS ''a'')],
      qb_expression_names = [(''#pk'', ''pk'')]\<rparr>"

definition simple_scan :: "string scan_builder" where
  "simple_scan =
     \<lparr>sb_model_cls = simple_model, sb_config = cls_meta simple_model, sb_limit_val = None,
      sb_index_name = None, sb_filter_conditions = [], sb_filter_values = [],
      sb_filter_names = [], sb_user_filter_condition = None\<rparr>"

text \<open>The key of an example item, as it is restored from the wire.\<close>

definition restore_wire :: "(string \<times> wire) list \<Rightarrow> pyval" where
  "restore_wire item = (case map_of item ''pk'' of Some (WS s) \<Rightarrow> PStr s | _ \<Rightarrow> PNone)"

text \<open>
  A model with a sort key and a secondary index that has its own sort key, and a query
  on it with a sort-key condition, as \<^verbatim>\<open>Message.query("general").eq("t1")\<close> builds it.
\<close>

definition message_model :: model_class where
  "message_model =
     \<lparr>cls_name = ''Message'',
      cls_meta = \<lparr>table_name = ''messages'', pk_name = ''room_id'', sk_name = Some ''timestamp'',
                  region = ''us-east-1'',
                  gsi_definitions =
                    [(''DateIndex'',
                      \<lparr>gsi_index_name = ''DateIndex'', gsi_pk_name = ''date'', gsi_pk_type = ''S'',
                       gsi_sk_name = Some ''created_at'', gsi_sk_type = ''S'',
                       gsi_projection_type = ''ALL''\<rparr>)],
                  discriminator_field = None, entity_registry = [], is_base_entity = False,
                  parent_model = None, discriminator_value = None\<rparr>,
      model_fields = [(''room_id'', \<lparr>fi_alias = None, fi_annotation = ''str''\<rparr>),
                      (''timestamp'', \<lparr>fi_alias = None, fi_annotation = ''str''\<rparr>),
                      (''date'', \<lparr>fi_alias = None, fi_annotation = ''str''\<rparr>),
                      (''created_at'', \<lparr>fi_alias = None, fi_annotation = ''str''\<rparr>)]\<rparr>"

definition message_query :: "string query_builder" where
  "message_query =
     \<lparr>qb_model_cls = message_model, qb_config = cls_meta message_model,
      qb_pk_val = PStr ''general'', qb_sk_condition = Some ''#sk = :sk'', qb_limit_val = None,
      qb_scan_forward = True, qb_index_name = None, qb_filter_conditions = [],
      qb_filter_values = [], qb_filter_names = [], qb_user_filter_condition = None,
      qb_pk_name = ''room_id'', qb_sk_name = Some ''timestamp'',
      qb_expression_values = [('':pk'', WS ''general''), ('':sk'', WS ''t1'')],
      qb_expression_names = [(''#pk'', ''room_id''), (''#sk'', ''timestamp'')]\<rparr>"

text \<open>Two stored users, as the store returns them to a query filtered for \<open>USER\<close>.\<close>

definition stored_user :: "string \<Rightarrow> string \<Rightarrow> (string \<times> wire) list" where
  "stored_user sk name =
     [(''pk'', WS ''p1''), (''sk'', WS sk), (''entity_type'', WS ''USER''), (''name'', WS name)]"

definition user_pages :: "'k \<Rightarrow> (py_exn + (string \<times> wire) list list) list" where
  "user_pages kwargs = [Inr [stored_user ''1'' ''Alice''], Inr [stored_user ''2'' ''Bob'']]"

section \<open>Atomic updates (updates.py)\<close>

text \<open>
  An update action with the name of its field (the attribute's name when an \<open>Attr\<close> was
  given) and its value; a \<open>Remove\<close> has none.
\<close>

datatype update_action =
    SetAction string pyval
  | RemoveAction string
  | AddAction string pyval
  | DeleteAction string pyval

fun field_name :: "update_action \<Rightarrow> string" where
  "field_name (SetAction n v) = n"
| "field_name (RemoveAction n) = n"
| "field_name (AddAction n v) = n"
| "field_name (DeleteAction n v) = n"

text \<open>\<^verbatim>\<open>UpdateAction._get_field_info\<close>: the first field whose alias, or name, matches.\<close>

fun get_field_info :: "(string \<times> field_info) list \<Rightarrow> string \<Rightarrow> field_info option" where
  "get_field_info [] n = None"
| "get_field_info (f # fs) n =
     (let dynamo_name = (if truthy_str (fi_alias (snd f)) then the (fi_alias (snd f)) else fst f)
      in if dynamo_name = n then Some (snd f) else get_field_info fs n)"

text \<open>
  \<^verbatim>\<open>type(value).__name__\<close>. The class of an enum member is not part of the value, so
  its name is given as \<open>Enum\<close>.
\<close>

fun type_name :: "pyval \<Rightarrow> string" where
  "type_name PNone = ''NoneType''"
| "type_name (PBool b) = ''bool''"
| "type_name (PInt n) = ''int''"
| "type_name (PFloat d) = ''float''"
| "type_name (PDecimal d) = ''Decimal''"
| "type_name (PStr s) = ''str''"
| "type_name (PBytes b) = ''bytes''"
| "type_name (PBinary b) = ''Binary''"
| "type_name (PDatetime txt tz) = ''datetime''"
| "type_name (PDate s) = ''date''"
| "type_name (PUUID s) = ''UUID''"
| "type_name (PEnum v) = ''Enum''"
| "type_name (PSet xs) = ''set''"
| "type_name (PFrozenset xs) = ''frozenset''"
| "type_name (PList xs) = ''list''"
| "type_name (PTuple xs) = ''tuple''"
| "type_name (PDict kvs) = ''dict''"
| "type_name (PObject c) = c"

text \<open>
  \<^verbatim>\<open>isinstance(v, (int, float, Decimal))\<close>, which a \<open>bool\<close> satisfies, and
  \<^verbatim>\<open>isinstance(v, (set, frozenset))\<close>. An enum member is taken without a numeric
  base class.
\<close>

fun add_is_number :: "pyval \<Rightarrow> bool" where
  "add_is_number (PInt n) = True"
| "add_is_number (PBool b) = True"
| "add_is_number (PFloat d) = True"
| "add_is_number (PDecimal d) = True"
| "add_is_number v = False"

fun add_is_set :: "pyval \<Rightarrow> bool" where
  "add_is_set (PSet xs) = True"
| "add_is_set (PFrozenset xs) = True"
| "add_is_set v = False"

definition validation_failed :: "string \<Rightarrow> string \<Rightarrow> py_exn" where
  "validation_failed name e =
     ValueError (''Validation failed for field '' @ apostrophe @ name @ apostrophe @ '': '' @ e)"

definition invalid_add_type :: "string \<Rightarrow> pyval \<Rightarrow> py_exn" where
  "invalid_add_type name validated_value =
     ValueError (''Invalid type for ADD operation on field '' @ apostrophe @ name @ apostrophe @
       ''. '' @ ''DynamoDB ADD supports only Numbers and Sets. '' @
       ''Got: '' @ type_name validated_value)"

definition invalid_add_value :: "pyval \<Rightarrow> py_exn" where
  "invalid_add_value v =
     ValueError (''Invalid value for ADD operation. '' @
       ''DynamoDB ADD supports only Numbers and Sets. '' @ ''Got: '' @ type_name v)"

text \<open>
  The \<open>validate\<close> methods of the four actions. \<open>adapter\<close> is the validation layer's
  \<^verbatim>\<open>TypeAdapter(annotation).validate_python\<close>: the coerced value, or the text of its
  validation error.
\<close>

fun validate ::
  "(string \<Rightarrow> pyval \<Rightarrow> string + pyval) \<Rightarrow> model_class \<Rightarrow> update_action \<Rightarrow> py_exn + pyval" where
  "validate adapter model_cls (SetAction n v) =
     (if v = PNone then Inr PNone
      else (case get_field_info (model_fields model_cls) n of
              Some fld \<Rightarrow>
                (case adapter (fi_annotation fld) v of
                   Inl e \<Rightarrow> Inl (validation_failed n e)
                 | Inr validated \<Rightarrow> Inr validated)
            | None \<Rightarrow> Inr v))"
| "validate adapter model_cls (RemoveAction n) = Inr PNone"
| "validate adapter model_cls (AddAction n v) =
     (case get_field_info (model_fields model_cls) n of
        Some fld \<Rightarrow>
          (case adapter (fi_annotation fld) v of
             Inl e \<Rightarrow> Inl (validation_failed n e)
           | Inr validated_value \<Rightarrow>
               (if \<not> (add_is_number validated_value \<or> add_is_set validated_value)
                then Inl (invalid_add_type n validated_value)
                else Inr validated_value))
      | None \<Rightarrow>
          (if \<not> (add_is_number v \<or> add_is_set v) then Inl (invalid_add_value v) else Inr v))"
| "validate adapter model_cls (DeleteAction n v) =
     (case get_field_info (model_fields model_cls) n of
        Some fld \<Rightarrow>
          (case adapter (fi_annotation fld) v of
             Inl e \<Rightarrow> Inl (validation_failed n e)
           | Inr validated \<Rightarrow> Inr validated)
      | None \<Rightarrow> Inr v)"

text \<open>\<^verbatim>\<open>UpdateBuilder\<close>\<close>

record 'c update_builder =
  ub_model_cls :: model_class
  ub_pk :: pyval
  ub_sk :: pyval
  ub_actions :: "update_action list"
  ub_condition :: "'c option"
  ub_return_values :: string

text \<open>The four groups of validated actions that \<^verbatim>\<open>_compile\<close> collects.\<close>

record action_groups =
  set_actions :: "(string \<times> pyval) list"
  remove_actions :: "string list"
  add_actions :: "(string \<times> pyval) list"
  delete_actions :: "(string \<times> pyval) list"

text \<open>
  The first loop of \<^verbatim>\<open>_compile\<close>: each action is validated in turn, the first failure
  raises; a \<open>Set\<close> whose validated value is \<open>None\<close> becomes a \<open>Remove\<close>.
\<close>

fun group_actions ::
  "(string \<Rightarrow> pyval \<Rightarrow> string + pyval) \<Rightarrow> model_class \<Rightarrow> update_action list \<Rightarrow>
   action_groups \<Rightarrow> py_exn + action_groups" where
  "group_actions adapter model_cls [] g = Inr g"
| "group_actions adapter model_cls (action # rest) g =
     (case validate adapter model_cls action of
        Inl e \<Rightarrow> Inl e
      | Inr validated_value \<Rightarrow>
          group_actions adapter model_cls rest
            (case action of
               SetAction n v \<Rightarrow>
                 (if validated_value = PNone
                  then g\<lparr>remove_actions := remove_actions g @ [n]\<rparr>
                  else g\<lparr>set_actions := set_actions g @ [(n, validated_value)]\<rparr>)
             | RemoveAction n \<Rightarrow> g\<lparr>remove_actions := remove_actions g @ [n]\<rparr>
             | AddAction n v \<Rightarrow> g\<lparr>add_actions := add_actions g @ [(n, validated_value)]\<rparr>
             | DeleteAction n v \<Rightarrow>
                 g\<lparr>delete_actions := delete_actions g @ [(n, validated_value)]\<rparr>))"

text \<open>\<^verbatim>\<open>str(n)\<close> for a counter.\<close>

fun str_nat :: "nat \<Rightarrow> string" where
  "str_nat n =
     (if n < 10 then [''0123456789'' ! n]
      else str_nat (n div 10) @ [''0123456789'' ! (n mod 10)])"

declare str_nat.simps [simp del]

text \<open>The placeholder maps and counters of one compilation.\<close>

record placeholders =
  ph_names :: "(string \<times> string) list"
  ph_values :: "(string \<times> wire) list"
  name_counter :: nat
  value_counter :: nat

text \<open>\<^verbatim>\<open>get_name_ph\<close> and \<^verbatim>\<open>get_value_ph\<close>\<close>

definition get_name_ph :: "string \<Rightarrow> placeholders \<Rightarrow> string \<times> placeholders" where
  "get_name_ph name st =
     (let ph = ''#u_n'' @ str_nat (name_counter st)
      in (ph, st\<lparr>ph_names := dict_set ph name (ph_names st),
                  name_counter := name_counter st + 1\<rparr>))"

definition get_value_ph :: "pyval \<Rightarrow> placeholders \<Rightarrow> py_exn + string \<times> placeholders" where
  "get_value_ph val st =
     (let ph = '':u_v'' @ str_nat (value_counter st)
      in case to_dynamo_value val of
           Inl e \<Rightarrow> Inl e
         | Inr w \<Rightarrow> Inr (ph, st\<lparr>ph_values := dict_set ph w (ph_values st),
                                 value_counter := value_counter st + 1\<rparr>))"

text \<open>The clauses of one kind: \<open>name sep value\<close> for each action, in order.\<close>

fun value_clauses ::
  "string \<Rightarrow> (string \<times> pyval) list \<Rightarrow> placeholders \<Rightarrow> py_exn + string list \<times> placeholders" where
  "value_clauses sep [] st = Inr ([], st)"
| "value_clauses sep (a # rest) st =
     (case get_name_ph (fst a) st of
        (n, st1) \<Rightarrow>
          (case get_value_ph (snd a) st1 of
             Inl e \<Rightarrow> Inl e
           | Inr (v, st2) \<Rightarrow>
               (case value_clauses sep rest st2 of
                  Inl e \<Rightarrow> Inl e
                | Inr (clauses, st3) \<Rightarrow> Inr ((n @ sep @ v) # clauses, st3))))"

fun name_clauses :: "string list \<Rightarrow> placeholders \<Rightarrow> string list \<times> placeholders" where
  "name_clauses [] st = ([], st)"
| "name_clauses (a # rest) st =
     (case get_name_ph a st of
        (n, st1) \<Rightarrow> (case name_clauses rest st1 of (clauses, st2) \<Rightarrow> (n # clauses, st2)))"

text \<open>What \<^verbatim>\<open>_compile\<close> returns.\<close>

record compiled_update =
  cu_UpdateExpression :: string
  cu_ConditionExpression :: "string option"
  cu_ExpressionAttributeNames :: "(string \<times> string) list option"
  cu_ExpressionAttributeValues :: "(string \<times> wire) list option"

text \<open>The second part of \<^verbatim>\<open>_compile\<close>: SET, REMOVE, ADD, DELETE, in this order.\<close>

definition build_expression :: "action_groups \<Rightarrow> py_exn + string list \<times> placeholders" where
  "build_expression g =
     (let st0 = \<lparr>ph_names = [], ph_values = [], name_counter = 0, value_counter = 0\<rparr> in
      case value_clauses '' = '' (set_actions g) st0 of
        Inl e \<Rightarrow> Inl e
      | Inr (sc, st1) \<Rightarrow>
          (case name_clauses (remove_actions g) st1 of
             (rc, st2) \<Rightarrow>
               (case value_clauses '' '' (add_actions g) st2 of
                  Inl e \<Rightarrow> Inl e
                | Inr (ac, st3) \<Rightarrow>
                    (case value_clauses '' '' (delete_actions g) st3 of
                       Inl e \<Rightarrow> Inl e
                     | Inr (dc, st4) \<Rightarrow>
                         Inr ((if set_actions g \<noteq> [] then [''SET '' @ join '', '' sc] else []) @
                              (if remove_actions g \<noteq> [] then [''REMOVE '' @ join '', '' rc] else []) @
                              (if add_actions g \<noteq> [] then [''ADD '' @ join '', '' ac] else []) @
                              (if delete_actions g \<noteq> [] then [''DELETE '' @ join '', '' dc] else []),
                              st4)))))"

text \<open>\<^verbatim>\<open>UpdateBuilder._compile\<close>\<close>

definition compile_update ::
  "(string \<Rightarrow> pyval \<Rightarrow> string + pyval) \<Rightarrow> ('c \<Rightarrow> py_exn + condition_params) \<Rightarrow>
   'c update_builder \<Rightarrow> py_exn + compiled_update" where
  "compile_update adapter compile b =
     (if ub_actions b = [] then Inl (ValueError ''No update actions specified'')
      else
        (case group_actions adapter (ub_model_cls b) (ub_actions b)
                \<lparr>set_actions = [], remove_actions = [], add_actions = [], delete_actions = []\<rparr> of
           Inl e \<Rightarrow> Inl e
         | Inr g \<Rightarrow>
             (case build_expression g of
                Inl e \<Rightarrow> Inl e
              | Inr (parts, st) \<Rightarrow>
                  (case (case ub_condition b of
                           None \<Rightarrow> Inr (None, ph_names st, ph_values st)
                         | Some c \<Rightarrow>
                             (case compile c of
                                Inl e \<Rightarrow> Inl e
                              | Inr params \<Rightarrow>
                                  Inr (Some (cp_ConditionExpression params),
                                       (case cp_ExpressionAttributeNames params of
                                          None \<Rightarrow> ph_names st
                                        | Some ns \<Rightarrow> dict_update (ph_names st) ns),
                                       (case cp_ExpressionAttributeValues params of
                                          None \<Rightarrow> ph_values st
                                        | Some vs \<Rightarrow> dict_update (ph_values st) vs)))) of
                     Inl e \<Rightarrow> Inl e
                   | Inr (cond, names, vals) \<Rightarrow>
                       Inr \<lparr>cu_UpdateExpression = join '' '' parts,
                            cu_ConditionExpression = cond,
                            cu_ExpressionAttributeNames = (if names \<noteq> [] then Some names else None),
                            cu_ExpressionAttributeValues = (if vals \<noteq> [] then Some vals else None)\<rparr>))))"

text \<open>The request \<^verbatim>\<open>execute\<close> sends, the store's response, and what is returned.\<close>

record update_item_kwargs =
  ui_params :: compiled_update
  ui_TableName :: string
  ui_Key :: "(string \<times> wire) list"
  ui_ReturnValues :: string

record update_response =
  ur_Attributes :: "(string \<times> wire) list option"
  ur_ResponseMetadata :: string

datatype update_result = ModelInstance model_instance | RawResponse update_response

text \<open>\<^verbatim>\<open>UpdateBuilder.return_values\<close>\<close>

definition return_values :: "'c update_builder \<Rightarrow> string \<Rightarrow> 'c update_builder" where
  "return_values b rv = b\<lparr>ub_return_values := rv\<rparr>"

text \<open>The key \<^verbatim>\<open>execute\<close> builds: the sort key only if given and defined by the schema.\<close>

definition key_dict :: "'c update_builder \<Rightarrow> (string \<times> pyval) list" where
  "key_dict b =
     (let config = cls_meta (ub_model_cls b) in
      if truthy (ub_sk b) \<and> truthy_str (sk_name config)
      then dict_set (the (sk_name config)) (ub_sk b) [(pk_name config, ub_pk b)]
      else [(pk_name config, ub_pk b)])"

text \<open>
  \<^verbatim>\<open>UpdateBuilder.execute\<close>. \<open>client\<close> is the store's \<open>update_item\<close>. The result is
  what is returned or raised, together with the requests that were sent to the store.
\<close>

definition execute ::
  "(string \<Rightarrow> pyval \<Rightarrow> string + pyval) \<Rightarrow> ('c \<Rightarrow> py_exn + condition_params) \<Rightarrow>
   (update_item_kwargs \<Rightarrow> py_exn + update_response) \<Rightarrow>
   (string \<Rightarrow> (string \<times> pyval) list \<Rightarrow> py_exn + (string \<times> pyval) list) \<Rightarrow>
   'c update_builder \<Rightarrow> (py_exn + update_result) \<times> update_item_kwargs list" where
  "execute adapter compile client layer b =
     (let config = cls_meta (ub_model_cls b)
      in case to_dynamo (key_dict b) of
           Inl e \<Rightarrow> (Inl e, [])
         | Inr dynamo_key \<Rightarrow>
             (case compile_update adapter compile b of
                Inl e \<Rightarrow> (Inl e, [])
              | Inr params \<Rightarrow>
                  (let kwargs = \<lparr>ui_params = params, ui_TableName = table_name config,
                                 ui_Key = dynamo_key, ui_ReturnValues = ub_return_values b\<rparr>
                   in case client kwargs of
                        Inl e \<Rightarrow> (Inl (handle_dynamo_errors (Some (table_name config)) e), [kwargs])
                      | Inr response \<Rightarrow>
                          (if ub_return_values b = ''ALL_NEW'' \<and> ur_Attributes response \<noteq> None
                           then
                             (case from_dynamo (the (ur_Attributes response)) of
                                Inl e \<Rightarrow> (Inl e, [kwargs])
                              | Inr raw_data \<Rightarrow>
                                  (case deserialize_item layer (ub_model_cls b) raw_data of
                                     Inl e \<Rightarrow> (Inl e, [kwargs])
                                   | Inr inst \<Rightarrow> (Inr (ModelInstance inst), [kwargs])))
                           else (Inr (RawResponse response), [kwargs])))))"

subsection \<open>Example data for updates\<close>

text \<open>
  The validation layer on the annotation of the examples: a \<open>str\<close> field takes a string as it
  is and refuses an integer, which the layer does not coerce to a string (the error text is
  shortened). No other input is used below.
\<close>

fun sample_adapter :: "string \<Rightarrow> pyval \<Rightarrow> string + pyval" where
  "sample_adapter annotation (PInt n) =
     (if annotation = ''str'' then Inl ''Input should be a valid string'' else Inr (PInt n))"
| "sample_adapter annotation v = Inr v"

text \<open>An update of the name of user \<open>1\<close>, started from the base table.\<close>

definition rename_update :: "string update_builder" where
  "rename_update =
     \<lparr>ub_model_cls = my_table, ub_pk = PStr ''1'', ub_sk = PNone,
      ub_actions = [SetAction ''name'' (PStr ''Bob'')], ub_condition = None,
      ub_return_values = ''NONE''\<rparr>"

text \<open>
  A store that answers every update: the whole item for \<open>ALL_NEW\<close>, the updated attribute
  for \<open>UPDATED_NEW\<close>, no attributes otherwise.
\<close>

definition sample_client :: "update_item_kwargs \<Rightarrow> py_exn + update_response" where
  "sample_client kwargs =
     Inr \<lparr>ur_Attributes =
            (if ui_ReturnValues kwargs = ''ALL_NEW''
             then Some [(''pk'', WS ''1''), (''entity_type'', WS ''USER''), (''name'', WS ''Bob'')]
             else if ui_ReturnValues kwargs = ''UPDATED_NEW''
             then Some [(''name'', WS ''Bob'')]
             else None),
          ur_ResponseMetadata = ''200''\<rparr>"

text \<open>
  Two actions on a user: an integer assigned to the discriminator, a string field, then a
  string added to the name.
\<close>

definition two_updates :: "string update_builder" where
  "two_updates =
     \<lparr>ub_model_cls = user_model, ub_pk = PStr ''1'', ub_sk = PNone,
      ub_actions = [SetAction ''entity_type'' (PInt 5), AddAction ''name'' (PStr ''x'')],
      ub_condition = None, ub_return_values = ''NONE''\<rparr>"

text \<open>A string added to a user's name, between two valid actions.\<close>

definition add_update :: "string update_builder" where
  "add_update =
     \<lparr>ub_model_cls = user_model, ub_pk = PStr ''1'', ub_sk = PNone,
      ub_actions = [SetAction ''entity_type'' (PStr ''USER''), AddAction ''name'' (PStr ''x''),
                    RemoveAction ''name''],
      ub_condition = None, ub_return_values = ''NONE''\<rparr>"

section \<open>Error translation: properties\<close>

lemma handle_dynamo_errors_is_dynantic:
  "is_dynantic_error (handle_dynamo_errors tn (ClientError r t))"
  by (simp add: Let_def new_TableNotFoundError_def new_ConditionalCheckFailedError_def)

lemma handle_dynamo_errors_original:
  "original_error (handle_dynamo_errors tn (ClientError r t)) = Some (ClientError r t)"
  by (simp add: Let_def new_TableNotFoundError_def new_ConditionalCheckFailedError_def)

lemma handle_dynamo_errors_passes_others:
  "\<not> is_client_error exn \<Longrightarrow> handle_dynamo_errors tn exn = exn"
  by (cases exn) simp_all

text \<open>
  Claim C9. Every transport fault (a \<open>ClientError\<close>) raised inside the translation
  scope leaves it as a library error, never as the fault itself, with the fault as its
  \<open>original_error\<close>. The recognised codes give their taxonomy class:
  \<open>ResourceNotFoundException\<close> a \<open>TableNotFoundError\<close>,
  \<open>ConditionalCheckFailedException\<close> a \<open>ConditionalCheckFailedError\<close>, the throttling
  codes a \<open>ProvisionedThroughputExceededError\<close>, the validation codes a
  \<open>ValidationError\<close>, and so on. Every other code gives the generic \<open>DynanticError\<close>
  whose message is \<open>DynamoDB error (code): message\<close>.
\<close>

theorem handle_dynamo_errors_translates:
  "let fault = ClientError r t;
       out = handle_dynamo_errors tn fault;
       code = error_code r
   in is_dynantic_error out \<and> \<not> is_client_error out \<and> original_error out = Some fault \<and>
      (code = ''ResourceNotFoundException'' \<longrightarrow> class_name out = ''TableNotFoundError'') \<and>
      (code = ''ConditionalCheckFailedException'' \<longrightarrow>
         class_name out = ''ConditionalCheckFailedError'') \<and>
      (code \<in> set [''ProvisionedThroughputExceededException'', ''ThrottlingException'',
                    ''RequestLimitExceeded''] \<longrightarrow>
         out = ProvisionedThroughputExceededError (error_message r t) (Some fault)) \<and>
      (code \<in> set [''ValidationException'', ''SerializationException''] \<longrightarrow>
         out = ValidationError (error_message r t) None None (Some fault)) \<and>
      (code = ''ItemCollectionSizeLimitExceededException'' \<longrightarrow>
         out = ItemCollectionSizeLimitError (error_message r t) (Some fault)) \<and>
      (code = ''TransactionConflictException'' \<longrightarrow>
         out = TransactionConflictError (error_message r t) (Some fault)) \<and>
      (code \<in> set [''RequestTimeout'', ''RequestTimeoutException''] \<longrightarrow>
         out = RequestTimeoutError (error_message r t) (Some fault)) \<and>
      (code \<notin> set recognized_codes \<longrightarrow>
         out = DynanticError (''DynamoDB error ('' @ code @ ''): '' @ error_message r t)
                 (Some fault))"
  by (simp add: Let_def new_TableNotFoundError_def new_ConditionalCheckFailedError_def
      recognized_codes_def)

theorem handle_dynamo_errors_translates_witness:
  "handle_dynamo_errors (Some ''users'') (fault_of ''ResourceNotFoundException'') =
     TableNotFoundError ''users''
       (''Table '' @ apostrophe @ ''users'' @ apostrophe @ '' not found'')
       (Some (fault_of ''ResourceNotFoundException''))
   \<and> class_name (handle_dynamo_errors None (fault_of ''ConditionalCheckFailedException'')) =
       ''ConditionalCheckFailedError''
   \<and> handle_dynamo_errors None (fault_of ''ThrottlingException'') =
       ProvisionedThroughputExceededError ''boom'' (Some (fault_of ''ThrottlingException''))
   \<and> handle_dynamo_errors None (fault_of ''ValidationException'') =
       ValidationError ''boom'' None None (Some (fault_of ''ValidationException''))
   \<and> handle_dynamo_errors None (fault_of ''ItemCollectionSizeLimitExceededException'') =
       ItemCollectionSizeLimitError ''boom''
         (Some (fault_of ''ItemCollectionSizeLimitExceededException''))
   \<and> handle_dynamo_errors None (fault_of ''TransactionConflictException'') =
       TransactionConflictError ''boom'' (Some (fault_of ''TransactionConflictException''))
   \<and> handle_dynamo_errors None (fault_of ''RequestTimeout'') =
       RequestTimeoutError ''boom'' (Some (fault_of ''RequestTimeout''))
   \<and> ''Teapot'' \<notin> set recognized_codes
   \<and> handle_dynamo_errors None (fault_of ''Teapot'') =
       DynanticError ''DynamoDB error (Teapot): boom'' (Some (fault_of ''Teapot''))"
  using
    handle_dynamo_errors_translates
      [of "Some [(''Code'', ''ResourceNotFoundException''), (''Message'', ''boom'')]"
          "''text''" "Some ''users''"]
    handle_dynamo_errors_translates
      [of "Some [(''Code'', ''ConditionalCheckFailedException''), (''Message'', ''boom'')]"
          "''text''" None]
    handle_dynamo_errors_translates
      [of "Some [(''Code'', ''ThrottlingException''), (''Message'', ''boom'')]" "''text''" None]
    handle_dynamo_errors_translates
      [of "Some [(''Code'', ''ValidationException''), (''Message'', ''boom'')]" "''text''" None]
    handle_dynamo_errors_translates
      [of "Some [(''Code'', ''ItemCollectionSizeLimitExceededException''), (''Message'', ''boom'')]"
          "''text''" None]
    handle_dynamo_errors_translates
      [of "Some [(''Code'', ''TransactionConflictException''), (''Message'', ''boom'')]"
          "''text''" None]
    handle_dynamo_errors_translates
      [of "Some [(''Code'', ''RequestTimeout''), (''Message'', ''boom'')]" "''text''" None]
    handle_dynamo_errors_translates
      [of "Some [(''Code'', ''Teapot''), (''Message'', ''boom'')]" "''text''" None]
  by (simp add: fault_of_def Let_def error_code_def error_message_def recognized_codes_def
      new_TableNotFoundError_def new_ConditionalCheckFailedError_def)

section \<open>Serializer: properties\<close>

lemma prepare_empty_set: "is_empty_set v \<Longrightarrow> prepare_for_dynamo v = Inr (PSet [])"
  by (cases v) auto

lemma serialize_empty_set: "serialize_set [] = Inr (WNS [])"
  by (simp add: serialize_set_def)

lemma prepare_items_filter:
  "\<forall>kv \<in> set data. fst kv = k \<longrightarrow> is_empty_set (snd kv) \<Longrightarrow>
   prepare_items (filter (\<lambda>kv. fst kv \<noteq> k) data) =
     (case prepare_items data of
        Inl e \<Rightarrow> Inl e
      | Inr clean \<Rightarrow> Inr (filter (\<lambda>kv. fst kv \<noteq> k) clean))"
  by (induction data) (auto simp: prepare_empty_set split: sum.splits)

lemma prepare_items_empty_sets:
  "\<forall>kv \<in> set data. fst kv = k \<longrightarrow> is_empty_set (snd kv) \<Longrightarrow>
   prepare_items data = Inr clean \<Longrightarrow>
   \<forall>kv \<in> set clean. fst kv = k \<longrightarrow> snd kv = PSet []"
  by (induction data arbitrary: clean) (auto simp: prepare_empty_set split: sum.splits)

lemma to_dynamo_loop_filter:
  "\<forall>kv \<in> set clean. fst kv = k \<longrightarrow> snd kv = PSet [] \<Longrightarrow>
   to_dynamo_loop (filter (\<lambda>kv. fst kv \<noteq> k) clean) = to_dynamo_loop clean"
  by (induction clean) (auto simp: serialize_empty_set split: sum.splits)

lemma to_dynamo_loop_keys:
  "\<forall>kv \<in> set clean. fst kv = k \<longrightarrow> snd kv = PSet [] \<Longrightarrow>
   to_dynamo_loop clean = Inr r \<Longrightarrow> k \<notin> fst ` set r"
  by (induction clean arbitrary: r) (auto simp: serialize_empty_set split: sum.splits if_splits)

text \<open>
  Claim C5. A field bound to an empty set is dropped from the encoded item: encoding the
  dictionary gives exactly what encoding it without that field gives (the same item, or
  the same error of another field), and a result has no key for the field. The field
  itself raises nothing: \<open>to_dynamo({"tags": set()})\<close> is the empty item.
\<close>

theorem to_dynamo_drops_empty_set:
  assumes "distinct (map fst data)" and "(k, v) \<in> set data" and "is_empty_set v"
  shows "to_dynamo data = to_dynamo (filter (\<lambda>kv. fst kv \<noteq> k) data) \<and>
         (\<forall>r. to_dynamo data = Inr r \<longrightarrow> k \<notin> fst ` set r)"
proof -
  have only: "\<forall>kv \<in> set data. fst kv = k \<longrightarrow> is_empty_set (snd kv)"
  proof (intro ballI impI)
    fix kv assume "kv \<in> set data" and "fst kv = k"
    with assms(1,2) have "kv = (k, v)"
      by (metis eq_key_imp_eq_value prod.collapse)
    with assms(3) show "is_empty_set (snd kv)" by simp
  qed
  show ?thesis
  proof (cases "prepare_items data")
    case (Inl e)
    with prepare_items_filter [OF only] show ?thesis by (simp add: to_dynamo_def)
  next
    case (Inr clean)
    from prepare_items_empty_sets [OF only Inr]
    have es: "\<forall>kv \<in> set clean. fst kv = k \<longrightarrow> snd kv = PSet []" .
    from prepare_items_filter [OF only] Inr to_dynamo_loop_filter [OF es]
      to_dynamo_loop_keys [OF es]
    show ?thesis by (auto simp: to_dynamo_def)
  qed
qed

theorem to_dynamo_drops_empty_set_witness:
  "distinct (map fst [(''tags'', PSet []), (''active'', PBool True)]) \<and>
   (''tags'', PSet []) \<in> set [(''tags'', PSet []), (''active'', PBool True)] \<and>
   is_empty_set (PSet []) \<and>
   to_dynamo [(''tags'', PSet []), (''active'', PBool True)] = Inr [(''active'', WBool True)] \<and>
   to_dynamo [(''tags'', PSet [])] = Inr [] \<and>
   ''tags'' \<notin> fst ` set [(''active'', WBool True)]"
  using to_dynamo_drops_empty_set
    [of "[(''tags'', PSet []), (''active'', PBool True)]" "''tags''" "PSet []"]
  by (simp add: to_dynamo_def serialize_set_def)

section \<open>Round trip: properties\<close>

lemma ndigits_le: "n < 10 ^ k \<Longrightarrow> 0 < k \<Longrightarrow> ndigits n \<le> k"
proof (induction k arbitrary: n)
  case 0
  then show ?case by simp
next
  case (Suc k)
  show ?case
  proof (cases "n < 10")
    case True
    then show ?thesis by (simp add: ndigits.simps)
  next
    case False
    with Suc.prems have k: "0 < k" by (cases k) auto
    from Suc.prems have "n div 10 < 10 ^ k" by (simp add: less_mult_imp_div_less mult.commute)
    from Suc.IH [OF this k] False show ?thesis by (subst ndigits.simps) simp
  qed
qed

lemma create_decimal_int: "\<bar>n\<bar> < 10 ^ 28 \<Longrightarrow> create_decimal (Dec n 0) = Inr (Dec n 0)"
proof -
  assume a: "\<bar>n\<bar> < 10 ^ 28"
  then have "nat \<bar>n\<bar> < 10 ^ 28"
    by (metis (no_types) nat_less_iff abs_ge_zero of_nat_numeral of_nat_power)
  from ndigits_le [OF this] have "ndigits (nat \<bar>n\<bar>) \<le> 28" by simp
  then show ?thesis by simp
qed

lemma serialize_n_finite: "create_decimal (Dec m e) = Inr (Dec m e) \<Longrightarrow> serialize_n (Dec m e) = Inr (Dec m e)"
  by (simp add: serialize_n_def)

lemma restore_int: "\<bar>n\<bar> < 10 ^ 28 \<Longrightarrow> restore_decimal (Dec n 0) = Inr (PInt n)"
  by (auto simp: int_part_def frac_zero_def sgn_if)

lemma all_valid_str:
  "\<forall>x \<in> set xs. is_str x \<Longrightarrow> xs \<noteq> [] \<Longrightarrow>
   all_valid is_number xs = Inr False \<and> all_valid is_string xs = Inr True"
proof (induction xs)
  case Nil then show ?case by simp
next
  case (Cons x xs)
  then obtain s where x: "x = PStr s" by (cases x) auto
  show ?case
  proof (cases "xs = []")
    case True with x show ?thesis by simp
  next
    case False with Cons x show ?thesis by simp
  qed
qed

lemma str_payload: "\<forall>x \<in> set xs. is_str x \<Longrightarrow> map PStr (map payload xs) = xs"
proof (induction xs)
  case Nil then show ?case by simp
next
  case (Cons x xs)
  then obtain s where "x = PStr s" by (cases x) auto
  with Cons show ?case by simp
qed

lemma str_prepare_list: "\<forall>x \<in> set xs. is_str x \<Longrightarrow> prepare_list xs = Inr xs \<and> (\<forall>y \<in> set xs. hashable y)"
proof (induction xs)
  case Nil then show ?case by simp
next
  case (Cons x xs)
  then obtain s where "x = PStr s" by (cases x) auto
  with Cons show ?case by simp
qed

lemma serialize_set_str:
  "\<forall>x \<in> set xs. is_str x \<Longrightarrow> \<exists>w. serialize_set xs = Inr w \<and> deserialize w = Inr (PSet xs)"
proof (cases "xs = []")
  case True then show ?thesis by (simp add: serialize_set_def)
next
  case False
  assume "\<forall>x \<in> set xs. is_str x"
  with False all_valid_str [of xs] str_payload [of xs] show ?thesis
    by (simp add: serialize_set_def)
qed

lemma passes_list:
  "\<forall>x \<in> set xs. passes x \<Longrightarrow>
   \<exists>cs ws ps. prepare_list xs = Inr cs \<and> serialize_list cs = Inr ws \<and>
      deserialize_list ws = Inr ps \<and> restore_list ps = Inr xs"
proof (induction xs)
  case Nil then show ?case by simp
next
  case (Cons x xs)
  then obtain c w p where "prepare_for_dynamo x = Inr c" "serialize c = Inr w"
    "deserialize w = Inr p" "restore_to_python p = Inr x"
    unfolding passes_def by auto
  moreover from Cons obtain cs ws ps where "prepare_list xs = Inr cs" "serialize_list cs = Inr ws"
      "deserialize_list ws = Inr ps" "restore_list ps = Inr xs" by auto
  ultimately show ?case by simp
qed

lemma passes_items:
  "\<forall>kv \<in> set kvs. passes (snd kv) \<Longrightarrow>
   \<exists>cs ws ps. prepare_items kvs = Inr cs \<and> serialize_items cs = Inr ws \<and>
      deserialize_items ws = Inr ps \<and> restore_items ps = Inr kvs"
proof (induction kvs)
  case Nil then show ?case by simp
next
  case (Cons kv kvs)
  then obtain c w p where "prepare_for_dynamo (snd kv) = Inr c" "serialize c = Inr w"
    "deserialize w = Inr p" "restore_to_python p = Inr (snd kv)"
    unfolding passes_def by auto
  moreover from Cons obtain cs ws ps where "prepare_items kvs = Inr cs" "serialize_items cs = Inr ws"
      "deserialize_items ws = Inr ps" "restore_items ps = Inr kvs" by auto
  ultimately show ?case by simp
qed

lemma stable_passes: "stable v \<Longrightarrow> passes v"
proof (induction v)
  case PNone then show ?case by (simp add: passes_def)
next
  case (PBool b) then show ?case by (simp add: passes_def)
next
  case (PInt n)
  then have a: "\<bar>n\<bar> < 10 ^ 28" by simp
  from create_decimal_int [OF a] restore_int [OF a] show ?case
    by (simp add: passes_def serialize_n_def)
next
  case (PFloat d)
  then obtain m e where d: "d = Dec m e" by (cases d) auto
  with PFloat show ?case
    by (simp add: passes_def serialize_n_def fits_store_def del: create_decimal.simps)
next
  case (PStr s) then show ?case by (simp add: passes_def)
next
  case (PSet xs)
  then have s: "\<forall>x \<in> set xs. is_str x" by simp
  from str_prepare_list [OF s] serialize_set_str [OF s] show ?case
    by (auto simp: passes_def)
next
  case (PList xs)
  then have "\<forall>x \<in> set xs. passes x" by simp
  from passes_list [OF this] show ?case by (auto simp: passes_def)
next
  case (PDict kvs)
  have "\<forall>kv \<in> set kvs. passes (snd kv)"
  proof
    fix kv assume kv: "kv \<in> set kvs"
    with PDict.prems have "stable (snd kv)" by simp
    moreover have "snd kv \<in> Basic_BNFs.snds kv" by (cases kv) simp
    ultimately show "passes (snd kv)" using PDict.IH kv by blast
  qed
  from passes_items [OF this] show ?case by (auto simp: passes_def)
qed simp_all

lemma roundtrip_passes:
  assumes "passes v" and "\<not> is_empty_set v"
  shows "roundtrip [(k, v)] = Inr [(k, v)]"
proof -
  from assms(1) obtain c w p where h: "prepare_for_dynamo v = Inr c" "serialize c = Inr w"
    "deserialize w = Inr p" "restore_to_python p = Inr v" "is_empty_set c \<longrightarrow> is_empty_set v"
    unfolding passes_def by blast
  with assms(2) show ?thesis
    by (simp add: roundtrip_def to_dynamo_def from_dynamo_def)
qed

lemma roundtrip_whole_float:
  assumes "fits_store (Dec m e)" and "frac_zero m e" and "int_part m e < 10 ^ 28"
  shows "roundtrip [(k, PFloat (Dec m e))] = Inr [(k, PInt (sgn m * int_part m e))]"
  using assms
  by (simp add: roundtrip_def to_dynamo_def from_dynamo_def serialize_n_def fits_store_def
      del: create_decimal.simps)

text \<open>
  Claim C1, as amended. \<open>from_dynamo(to_dynamo({k: v})) == {k: v}\<close> in type and value
  for every \<open>v\<close> built from \<open>None\<close>, booleans, integers below \<open>10^28\<close> in magnitude,
  strings, floats with a non-zero fractional part that are below \<open>10^28\<close> in magnitude and
  fit the store's number format, sets of strings, and lists and dictionaries of these; an
  empty set at the top level is omitted instead. A float with zero fractional part that is
  below \<open>10^28\<close> in magnitude and fits the store's number format comes back as the
  corresponding \<open>int\<close>. The other supported values come back as what they were encoded
  to: a UUID and a date as their text, a string-valued enum member as its value, bytes as
  the transport library's binary wrapper.
\<close>

theorem roundtrip_stable_values:
  "(stable v \<and> \<not> is_empty_set v \<longrightarrow> roundtrip [(k, v)] = Inr [(k, v)]) \<and>
   (is_empty_set v \<longrightarrow> roundtrip [(k, v)] = Inr []) \<and>
   (fits_store (Dec m e) \<and> frac_zero m e \<and> int_part m e < 10 ^ 28 \<longrightarrow>
      roundtrip [(k, PFloat (Dec m e))] = Inr [(k, PInt (sgn m * int_part m e))]) \<and>
   roundtrip [(k, PUUID u)] = Inr [(k, PStr u)] \<and>
   roundtrip [(k, PDate d)] = Inr [(k, PStr d)] \<and>
   roundtrip [(k, PEnum (PStr s))] = Inr [(k, PStr s)] \<and>
   roundtrip [(k, PBytes b)] = Inr [(k, PBinary b)]"
proof -
  have "roundtrip [(k, v)] = Inr []" if "is_empty_set v"
    using prepare_empty_set [OF that]
    by (simp add: roundtrip_def to_dynamo_def from_dynamo_def serialize_empty_set)
  then show ?thesis
    using roundtrip_passes [OF stable_passes, of v k] roundtrip_whole_float [of m e k]
    by (simp add: roundtrip_def to_dynamo_def from_dynamo_def)
qed

theorem roundtrip_stable_values_witness:
  "stable sample_value \<and> \<not> is_empty_set sample_value \<and>
   roundtrip [(''user'', sample_value)] = Inr [(''user'', sample_value)] \<and>
   is_empty_set (PSet []) \<and> roundtrip [(''tags'', PSet [])] = Inr [] \<and>
   fits_store (Dec 100 (- 1)) \<and> frac_zero 100 (- 1) \<and> int_part 100 (- 1) < 10 ^ 28 \<and>
   roundtrip [(''score'', PFloat (Dec 100 (- 1)))] = Inr [(''score'', PInt 10)]"
  using roundtrip_stable_values [of sample_value "''user''" 0 0]
        roundtrip_stable_values [of "PSet []" "''tags''" 100 "- 1"]
        roundtrip_stable_values [of PNone "''score''" 100 "- 1"]
  by (simp add: sample_value_def fits_store_def frac_zero_def int_part_def ndigits.simps)

text \<open>
  Claim C1 as stated fails: a UUID is a supported value, is encoded as a string, and comes
  back as that string, not as a UUID.
\<close>

theorem roundtrip_uuid_counterexample:
  "roundtrip [(''id'', PUUID ''550e8400-e29b-41d4-a716-446655440000'')] \<noteq>
     Inr [(''id'', PUUID ''550e8400-e29b-41d4-a716-446655440000'')]"
  by (simp add: roundtrip_def to_dynamo_def from_dynamo_def)

text \<open>
  Two more values outside the stable ones: an integer of 29 digits is encoded, but
  restoring it raises (the remainder by one exceeds the default decimal precision); a set
  of numbers comes back as a set of \<open>Decimal\<close>, since sets are not restored.
\<close>

lemma roundtrip_large_int:
  "roundtrip [(''n'', PInt (10 ^ 28))] = Inl (DecimalException ''DivisionImpossible'')"
  by (simp add: roundtrip_def to_dynamo_def from_dynamo_def serialize_n_def int_part_def
      ndigits.simps)

lemma roundtrip_number_set:
  "roundtrip [(''s'', PSet [PInt 1, PInt 2])] = Inr [(''s'', PSet [PDecimal (Dec 1 0), PDecimal (Dec 2 0)])]"
  by (simp add: roundtrip_def to_dynamo_def from_dynamo_def serialize_n_def serialize_set_def
      ndigits.simps)

section \<open>Polymorphic item resolution: properties\<close>

text \<open>
  Claim C7, as amended. Resolution selects the type and returns what constructing it
  gives, an instance of that type or the validation layer's error, adding no error of
  its own: a schema that is not a polymorphic base always constructs the invoking type;
  a polymorphic base constructs the base type itself when the discriminator value is
  absent from the map, falsy, or a hashable value that is not registered, and the
  registered subtype when it is registered.
\<close>

theorem deserialize_item_resolution:
  "(\<not> (is_base_entity (cls_meta cls) \<and> truthy_str (discriminator_field (cls_meta cls))) \<longrightarrow>
      deserialize_item layer cls raw = construct layer (cls_name cls) raw) \<and>
   (is_base_entity (cls_meta cls) \<and> discriminator_field (cls_meta cls) = Some f \<and> f \<noteq> [] \<longrightarrow>
      (map_of raw f = None \<longrightarrow>
         deserialize_item layer cls raw = construct layer (cls_name cls) raw) \<and>
      (\<forall>d. map_of raw f = Some d \<and> \<not> truthy d \<longrightarrow>
         deserialize_item layer cls raw = construct layer (cls_name cls) raw) \<and>
      (\<forall>d. map_of raw f = Some d \<and> truthy d \<and> get_entity_class (cls_meta cls) d = Inr None \<longrightarrow>
         deserialize_item layer cls raw = construct layer (cls_name cls) raw) \<and>
      (\<forall>d sub. map_of raw f = Some d \<and> truthy d \<and>
           get_entity_class (cls_meta cls) d = Inr (Some sub) \<longrightarrow>
         deserialize_item layer cls raw = construct layer sub raw)) \<and>
   (\<forall>inst. construct layer c raw = Inr inst \<longrightarrow> instance_class inst = c)"
  by (auto simp: deserialize_item_def construct_def Let_def truthy_str_def split: sum.splits)

theorem deserialize_item_resolution_witness:
  "deserialize_item test_layer user_model
      [(''pk'', PStr ''123''), (''entity_type'', PStr ''USER''), (''name'', PStr ''Alice'')] =
     Inr (Instance ''User''
       [(''pk'', PStr ''123''), (''entity_type'', PStr ''USER''), (''name'', PStr ''Alice'')]) \<and>
   deserialize_item test_layer my_table
      [(''pk'', PStr ''123''), (''entity_type'', PStr ''USER''), (''name'', PStr ''Alice'')] =
     Inr (Instance ''User''
       [(''pk'', PStr ''123''), (''entity_type'', PStr ''USER''), (''name'', PStr ''Alice'')]) \<and>
   deserialize_item test_layer my_table
      [(''pk'', PStr ''789''), (''entity_type'', PStr ''UNKNOWN''), (''custom_field'', PStr ''value'')] =
     Inr (Instance ''MyTable''
       [(''pk'', PStr ''789''), (''entity_type'', PStr ''UNKNOWN''), (''custom_field'', PStr ''value'')]) \<and>
   deserialize_item test_layer my_table
      [(''pk'', PStr ''1''), (''entity_type'', PStr '''')] =
     Inr (Instance ''MyTable'' [(''pk'', PStr ''1''), (''entity_type'', PStr '''')]) \<and>
   deserialize_item (required_fields_layer []) my_table [(''pk'', PStr ''1'')] =
     Inr (Instance ''MyTable'' [(''pk'', PStr ''1'')])"
  using
    deserialize_item_resolution [of user_model test_layer
      "[(''pk'', PStr ''123''), (''entity_type'', PStr ''USER''), (''name'', PStr ''Alice'')]"
      "''entity_type''" "''User''"]
    deserialize_item_resolution [of my_table test_layer
      "[(''pk'', PStr ''123''), (''entity_type'', PStr ''USER''), (''name'', PStr ''Alice'')]"
      "''entity_type''" "''User''"]
    deserialize_item_resolution [of my_table test_layer
      "[(''pk'', PStr ''789''), (''entity_type'', PStr ''UNKNOWN''), (''custom_field'', PStr ''value'')]"
      "''entity_type''" "''MyTable''"]
    deserialize_item_resolution [of my_table test_layer
      "[(''pk'', PStr ''1''), (''entity_type'', PStr '''')]" "''entity_type''" "''MyTable''"]
    deserialize_item_resolution [of my_table "required_fields_layer []"
      "[(''pk'', PStr ''1'')]" "''entity_type''" "''MyTable''"]
  by (simp add: user_model_def my_table_def my_table_meta_def registered_subtype_def
      test_layer_def required_fields_layer_def construct_def truthy_str_def)

text \<open>
  Claim C7 as stated fails: resolution does raise. On the base table of the tests a map
  without the discriminator falls back to the base type, whose construction the
  validation layer rejects because the discriminator field is required.
\<close>

theorem deserialize_item_raises_counterexample:
  "deserialize_item test_layer my_table [(''pk'', PStr ''999''), (''name'', PStr ''No Type'')] =
     Inl (PydanticValidationError ''Field required'')"
  by (simp add: deserialize_item_def my_table_def my_table_meta_def test_layer_def
      required_fields_layer_def construct_def truthy_str_def)

text \<open>
  A discriminator attribute that holds a list, a set or a map is not covered by the
  fallback: the registry lookup itself raises, whatever the validation layer accepts.
\<close>

lemma deserialize_item_unhashable:
  "deserialize_item layer my_table
     [(''pk'', PStr ''1''), (''entity_type'', PList [PStr ''USER''])] =
   Inl (TypeError ''unhashable type'')"
  by (simp add: deserialize_item_def my_table_def my_table_meta_def truthy_str_def)

section \<open>Iteration: properties\<close>

lemma items_loop_limit:
  assumes "0 \<le> count" and "count < n"
  shows "case items_loop (Some n) mk count items of
           (ys, c, fl) \<Rightarrow>
             c = count + int (length ys) \<and> c \<le> n \<and> length ys \<le> length items \<and>
             (fl = Return \<longleftrightarrow> c = n) \<and> (fl = Continue \<longrightarrow> length ys = length items)"
  using assms
proof (induction items arbitrary: count)
  case Nil
  then show ?case by simp
next
  case (Cons item rest)
  show ?case
  proof (cases "mk item")
    case (Inl e)
    with Cons.prems show ?thesis by simp
  next
    case (Inr x)
    show ?thesis
    proof (cases "limit_reached (Some n) (count + 1)")
      case True
      with Cons.prems Inr show ?thesis by (auto simp: limit_reached_def)
    next
      case False
      with Cons.prems have lt: "count + 1 < n" and nn: "0 \<le> count + 1"
        by (auto simp: limit_reached_def)
      from Cons.IH [OF nn lt] Inr False show ?thesis
        by (auto split: prod.splits)
    qed
  qed
qed

lemma pages_loop_limit:
  assumes "0 \<le> count" and "count < n"
  shows "case pages_loop (Some n) mk count pages of
           (ys, k, fl) \<Rightarrow>
             count + int (length ys) \<le> n \<and> k \<le> length pages \<and>
             (fl = Return \<longleftrightarrow> count + int (length ys) = n) \<and>
             (count + int (length ys) = n \<longrightarrow>
                0 < k \<and> count + int (sum_list (map page_size (take (k - 1) pages))) < n)"
  using assms
proof (induction pages arbitrary: count)
  case Nil
  then show ?case by simp
next
  case (Cons pg pgs)
  show ?case
  proof (cases pg)
    case (Inl e)
    with Cons.prems show ?thesis by simp
  next
    case (Inr page_items)
    obtain ys c fl where il: "items_loop (Some n) mk count page_items = (ys, c, fl)"
      by (cases "items_loop (Some n) mk count page_items") auto
    from items_loop_limit [OF Cons.prems, where mk = mk and items = page_items] il
    have h: "c = count + int (length ys)" "c \<le> n" "length ys \<le> length page_items"
      "fl = Return \<longleftrightarrow> c = n" "fl = Continue \<longrightarrow> length ys = length page_items"
      by auto
    show ?thesis
    proof (cases "fl = Continue")
      case False
      with Inr il h Cons.prems show ?thesis by auto
    next
      case True
      with h Cons.prems have lt: "c < n" and nn: "0 \<le> c"
        and full: "length ys = length page_items" by auto
      obtain zs k fl' where pl: "pages_loop (Some n) mk c pgs = (zs, k, fl')"
        by (cases "pages_loop (Some n) mk c pgs") auto
      from Cons.IH [OF nn lt] pl
      have ih: "c + int (length zs) \<le> n" "k \<le> length pgs"
        "fl' = Return \<longleftrightarrow> c + int (length zs) = n"
        "c + int (length zs) = n \<longrightarrow>
           0 < k \<and> c + int (sum_list (map page_size (take (k - 1) pgs))) < n"
        by auto
      have res: "pages_loop (Some n) mk count (pg # pgs) = (ys @ zs, Suc k, fl')"
        using Inr il True pl by simp
      have "count + int (length (ys @ zs)) = c + int (length zs)"
        using h(1) by simp
      moreover have "count + int (length (ys @ zs)) = n \<longrightarrow>
          count + int (sum_list (map page_size (take (Suc k - 1) (pg # pgs)))) < n"
      proof
        assume "count + int (length (ys @ zs)) = n"
        with calculation ih(4) have k: "0 < k"
          and s: "c + int (sum_list (map page_size (take (k - 1) pgs))) < n" by auto
        from k obtain j where j: "k = Suc j" by (cases k) auto
        with s h(1) full Inr show
          "count + int (sum_list (map page_size (take (Suc k - 1) (pg # pgs)))) < n"
          by simp
      qed
      ultimately show ?thesis using res ih by auto
    qed
  qed
qed

lemma iterate_pages_limit:
  assumes "1 \<le> n"
  shows "length (yielded (iterate_pages layer cls (Some n) pages)) \<le> nat n \<and>
         page_requests (iterate_pages layer cls (Some n) pages) \<le> length pages \<and>
         (length (yielded (iterate_pages layer cls (Some n) pages)) = nat n \<longrightarrow>
            raised (iterate_pages layer cls (Some n) pages) = None \<and>
            0 < page_requests (iterate_pages layer cls (Some n) pages) \<and>
            sum_list (map page_size
              (take (page_requests (iterate_pages layer cls (Some n) pages) - 1) pages)) < nat n)"
proof -
  obtain ys k fl where pl: "pages_loop (Some n) (materialise layer cls) 0 pages = (ys, k, fl)"
    by (cases "pages_loop (Some n) (materialise layer cls) 0 pages") auto
  from assms have "(0::int) \<le> 0" and "0 < n" by auto
  from pages_loop_limit [OF this, where mk = "materialise layer cls" and pages = pages] pl
  have h: "int (length ys) \<le> n" "k \<le> length pages"
    "fl = Return \<longleftrightarrow> int (length ys) = n"
    "int (length ys) = n \<longrightarrow> 0 < k \<and> int (sum_list (map page_size (take (k - 1) pages))) < n"
    by auto
  have it: "iterate_pages layer cls (Some n) pages =
      \<lparr>yielded = ys, page_requests = k,
       raised = (case fl of Raise e \<Rightarrow> Some (handle_dynamo_errors (Some (table_name (cls_meta cls))) e)
                 | _ \<Rightarrow> None)\<rparr>"
    using pl by (simp add: iterate_pages_def)
  from h assms show ?thesis unfolding it by auto
qed

text \<open>
  Claim C2. With \<open>limit(n)\<close> for \<open>n \<ge> 1\<close>, a query or a scan yields at most \<open>n\<close> items
  over the whole traversal, and so does \<open>all()\<close>. When the \<open>n\<close>-th item has been yielded
  the iteration ends there without an error: the pages requested before the last one
  hold fewer than \<open>n\<close> items, so the last page requested is the one that holds the
  \<open>n\<close>-th item (whatever else it holds), and no page is requested after it.
\<close>

theorem limit_truncates_iteration:
  assumes "1 \<le> n"
  shows "(let it = query_iter compile paginate layer (query_limit b n) in
            length (yielded it) \<le> nat n \<and>
            (\<forall>xs. all_items it = Inr xs \<longrightarrow> length xs \<le> nat n) \<and>
            (\<forall>kwargs. query_iter_kwargs compile (query_limit b n) = Inr kwargs \<longrightarrow>
               page_requests it \<le> length (paginate kwargs) \<and>
               (length (yielded it) = nat n \<longrightarrow>
                  raised it = None \<and> 0 < page_requests it \<and>
                  sum_list (map page_size (take (page_requests it - 1) (paginate kwargs)))
                    < nat n))) \<and>
         (let it = scan_iter compile' paginate' layer (scan_limit s n) in
            length (yielded it) \<le> nat n \<and>
            (\<forall>xs. all_items it = Inr xs \<longrightarrow> length xs \<le> nat n) \<and>
            (\<forall>kwargs. scan_iter_kwargs compile' (scan_limit s n) = Inr kwargs \<longrightarrow>
               page_requests it \<le> length (paginate' kwargs) \<and>
               (length (yielded it) = nat n \<longrightarrow>
                  raised it = None \<and> 0 < page_requests it \<and>
                  sum_list (map page_size (take (page_requests it - 1) (paginate' kwargs)))
                    < nat n)))"
proof -
  show ?thesis
  proof (intro conjI)
    show "let it = query_iter compile paginate layer (query_limit b n) in
            length (yielded it) \<le> nat n \<and>
            (\<forall>xs. all_items it = Inr xs \<longrightarrow> length xs \<le> nat n) \<and>
            (\<forall>kwargs. query_iter_kwargs compile (query_limit b n) = Inr kwargs \<longrightarrow>
               page_requests it \<le> length (paginate kwargs) \<and>
               (length (yielded it) = nat n \<longrightarrow>
                  raised it = None \<and> 0 < page_requests it \<and>
                  sum_list (map page_size (take (page_requests it - 1) (paginate kwargs)))
                    < nat n))"
    proof (cases "query_iter_kwargs compile (query_limit b n)")
      case (Inl e)
      then show ?thesis by (simp add: query_iter_def all_items_def)
    next
      case (Inr kwargs)
      from iterate_pages_limit [OF assms, of layer "qb_model_cls b" "paginate kwargs"] Inr
      show ?thesis
        by (auto simp: query_iter_def query_limit_def all_items_def Let_def split: option.splits)
    qed
    show "let it = scan_iter compile' paginate' layer (scan_limit s n) in
            length (yielded it) \<le> nat n \<and>
            (\<forall>xs. all_items it = Inr xs \<longrightarrow> length xs \<le> nat n) \<and>
            (\<forall>kwargs. scan_iter_kwargs compile' (scan_limit s n) = Inr kwargs \<longrightarrow>
               page_requests it \<le> length (paginate' kwargs) \<and>
               (length (yielded it) = nat n \<longrightarrow>
                  raised it = None \<and> 0 < page_requests it \<and>
                  sum_list (map page_size (take (page_requests it - 1) (paginate' kwargs)))
                    < nat n))"
    proof (cases "scan_iter_kwargs compile' (scan_limit s n)")
      case (Inl e)
      then show ?thesis by (simp add: scan_iter_def all_items_def)
    next
      case (Inr kwargs)
      from iterate_pages_limit [OF assms, of layer "sb_model_cls s" "paginate' kwargs"] Inr
      show ?thesis
        by (auto simp: scan_iter_def scan_limit_def all_items_def Let_def split: option.splits)
    qed
  qed
qed

lemma sample_query_limit_3:
  "query_iter text_compile sample_paginate (required_fields_layer []) (query_limit simple_query 3) =
     \<lparr>yielded = [Instance ''SimpleModel'' [(''pk'', PStr ''a'')],
                 Instance ''SimpleModel'' [(''pk'', PStr ''b'')],
                 Instance ''SimpleModel'' [(''pk'', PStr ''c'')]],
      page_requests = 2, raised = None\<rparr>"
  by (simp add: query_iter_def query_iter_kwargs_def query_limit_def simple_query_def
      simple_model_def iterate_pages_def sample_paginate_def sample_pages_def stored_item_def
      materialise_def from_dynamo_def deserialize_item_def construct_def
      required_fields_layer_def limit_reached_def dict_update_def truthy_str_def Let_def)

lemma sample_scan_limit_3:
  "scan_iter text_compile sample_paginate (required_fields_layer []) (scan_limit simple_scan 3) =
     \<lparr>yielded = [Instance ''SimpleModel'' [(''pk'', PStr ''a'')],
                 Instance ''SimpleModel'' [(''pk'', PStr ''b'')],
                 Instance ''SimpleModel'' [(''pk'', PStr ''c'')]],
      page_requests = 2, raised = None\<rparr>"
  by (simp add: scan_iter_def scan_iter_kwargs_def scan_limit_def simple_scan_def
      simple_model_def iterate_pages_def sample_paginate_def sample_pages_def stored_item_def
      materialise_def from_dynamo_def deserialize_item_def construct_def
      required_fields_layer_def limit_reached_def truthy_str_def Let_def)

theorem limit_truncates_iteration_witness:
  "(1::int) \<le> 3 \<and>
   length (yielded (query_iter text_compile sample_paginate (required_fields_layer [])
              (query_limit simple_query 3))) = 3 \<and>
   page_requests (query_iter text_compile sample_paginate (required_fields_layer [])
              (query_limit simple_query 3)) = 2 \<and>
   length (yielded (scan_iter text_compile sample_paginate (required_fields_layer [])
              (scan_limit simple_scan 3))) = 3 \<and>
   page_requests (scan_iter text_compile sample_paginate (required_fields_layer [])
              (scan_limit simple_scan 3)) = 2 \<and>
   sum_list (map page_size (take (2 - 1) sample_pages)) < nat 3"
  using limit_truncates_iteration [of 3 text_compile sample_paginate "required_fields_layer []"
          simple_query text_compile sample_paginate simple_scan]
  by (simp add: sample_query_limit_3 sample_scan_limit_3 sample_pages_def)

lemma limit_reached_falsy: "limit_reached (Some 0) c = limit_reached None c"
  by (simp add: limit_reached_def)

lemma items_loop_zero: "items_loop (Some 0) mk c xs = items_loop None mk c xs"
  by (induction xs arbitrary: c) (simp_all add: limit_reached_falsy split: sum.splits)

lemma pages_loop_zero: "pages_loop (Some 0) mk c pages = pages_loop None mk c pages"
  by (induction pages arbitrary: c) (simp_all add: items_loop_zero split: sum.splits prod.splits)

lemma items_loop_unlimited:
  "\<forall>item \<in> set xs. mk item = Inr (f item) \<Longrightarrow>
   items_loop None mk c xs = (map f xs, c + int (length xs), Continue)"
  by (induction xs arbitrary: c) (simp_all add: limit_reached_def)

lemma pages_loop_unlimited:
  "\<forall>item \<in> set (concat pss). mk item = Inr (f item) \<Longrightarrow>
   pages_loop None mk c (map Inr pss) = (map f (concat pss), length pss, Continue)"
proof (induction pss arbitrary: c)
  case Nil
  then show ?case by simp
next
  case (Cons ps pss)
  then have a: "\<forall>item \<in> set ps. mk item = Inr (f item)"
    and b: "\<forall>item \<in> set (concat pss). mk item = Inr (f item)" by auto
  from items_loop_unlimited [OF a] Cons.IH [OF b] show ?case by simp
qed

text \<open>
  Claim C10. \<open>limit(0)\<close> behaves as if no limit were set, for a query and for a scan:
  the stored limit is tested for truth, so the request carries no \<open>Limit\<close> and is the
  request of the builder without a limit, and the traversal is the same. When the store
  answers the request without a fault and every item materialises, iterating the builder
  yields every item of every page, in order, with one request per page and no error, and
  \<open>all()\<close> returns them all.
\<close>

theorem limit_zero_is_no_limit:
  "query_iter_kwargs compile (query_limit b 0) =
     query_iter_kwargs compile (b\<lparr>qb_limit_val := None\<rparr>) \<and>
   (\<forall>kwargs. query_iter_kwargs compile (query_limit b 0) = Inr kwargs \<longrightarrow>
      qk_Limit kwargs = None) \<and>
   query_iter compile paginate layer (query_limit b 0) =
     query_iter compile paginate layer (b\<lparr>qb_limit_val := None\<rparr>) \<and>
   (\<forall>kwargs. query_iter_kwargs compile (query_limit b 0) = Inr kwargs \<and>
      paginate kwargs = map Inr pss \<and>
      (\<forall>item \<in> set (concat pss). materialise layer (qb_model_cls b) item = Inr (f item)) \<longrightarrow>
      query_iter compile paginate layer (query_limit b 0) =
        \<lparr>yielded = map f (concat pss), page_requests = length pss, raised = None\<rparr> \<and>
      all_items (query_iter compile paginate layer (query_limit b 0)) =
        Inr (map f (concat pss))) \<and>
   scan_iter_kwargs compile' (scan_limit s 0) =
     scan_iter_kwargs compile' (s\<lparr>sb_limit_val := None\<rparr>) \<and>
   (\<forall>kwargs. scan_iter_kwargs compile' (scan_limit s 0) = Inr kwargs \<longrightarrow>
      sk_Limit kwargs = None) \<and>
   scan_iter compile' paginate' layer (scan_limit s 0) =
     scan_iter compile' paginate' layer (s\<lparr>sb_limit_val := None\<rparr>) \<and>
   (\<forall>kwargs. scan_iter_kwargs compile' (scan_limit s 0) = Inr kwargs \<and>
      paginate' kwargs = map Inr pss' \<and>
      (\<forall>item \<in> set (concat pss'). materialise layer (sb_model_cls s) item = Inr (f' item)) \<longrightarrow>
      scan_iter compile' paginate' layer (scan_limit s 0) =
        \<lparr>yielded = map f' (concat pss'), page_requests = length pss', raised = None\<rparr> \<and>
      all_items (scan_iter compile' paginate' layer (scan_limit s 0)) =
        Inr (map f' (concat pss')))"
proof -
  have k1: "query_iter_kwargs compile (query_limit b 0) =
      query_iter_kwargs compile (b\<lparr>qb_limit_val := None\<rparr>)"
    by (auto simp: query_iter_kwargs_def query_limit_def Let_def split: sum.splits prod.splits)
  have k2: "\<forall>kwargs. query_iter_kwargs compile (query_limit b 0) = Inr kwargs \<longrightarrow>
      qk_Limit kwargs = None"
    by (auto simp: query_iter_kwargs_def query_limit_def Let_def split: if_splits sum.splits)
  have k3: "scan_iter_kwargs compile' (scan_limit s 0) =
      scan_iter_kwargs compile' (s\<lparr>sb_limit_val := None\<rparr>)"
    by (auto simp: scan_iter_kwargs_def scan_limit_def Let_def split: sum.splits prod.splits)
  have k4: "\<forall>kwargs. scan_iter_kwargs compile' (scan_limit s 0) = Inr kwargs \<longrightarrow>
      sk_Limit kwargs = None"
    by (auto simp: scan_iter_kwargs_def scan_limit_def Let_def split: if_splits sum.splits)
  have it: "\<And>c pages. iterate_pages layer c (Some 0) pages = iterate_pages layer c None pages"
    by (simp add: iterate_pages_def pages_loop_zero)
  have q: "query_iter compile paginate layer (query_limit b 0) =
      query_iter compile paginate layer (b\<lparr>qb_limit_val := None\<rparr>)"
    using k1 by (auto simp: query_iter_def query_limit_def it split: sum.splits)
  have s: "scan_iter compile' paginate' layer (scan_limit s 0) =
      scan_iter compile' paginate' layer (s\<lparr>sb_limit_val := None\<rparr>)"
    using k3 by (auto simp: scan_iter_def scan_limit_def it split: sum.splits)
  have e: "iterate_pages layer cls (Some 0) (map Inr qss) =
        \<lparr>yielded = map g (concat qss), page_requests = length qss, raised = None\<rparr>"
    if a: "\<forall>item \<in> set (concat qss). materialise layer cls item = Inr (g item)"
    for cls qss g
    using pages_loop_unlimited [OF a, of 0] by (simp add: iterate_pages_def pages_loop_zero)
  have yq: "\<forall>kwargs. query_iter_kwargs compile (query_limit b 0) = Inr kwargs \<and>
      paginate kwargs = map Inr pss \<and>
      (\<forall>item \<in> set (concat pss). materialise layer (qb_model_cls b) item = Inr (f item)) \<longrightarrow>
      query_iter compile paginate layer (query_limit b 0) =
        \<lparr>yielded = map f (concat pss), page_requests = length pss, raised = None\<rparr> \<and>
      all_items (query_iter compile paginate layer (query_limit b 0)) =
        Inr (map f (concat pss))"
  proof (intro allI impI)
    fix kwargs
    assume h: "query_iter_kwargs compile (query_limit b 0) = Inr kwargs \<and>
      paginate kwargs = map Inr pss \<and>
      (\<forall>item \<in> set (concat pss). materialise layer (qb_model_cls b) item = Inr (f item))"
    then have a: "\<forall>item \<in> set (concat pss). materialise layer (qb_model_cls b) item = Inr (f item)"
      by blast
    from h have r: "query_iter compile paginate layer (query_limit b 0) =
        iterate_pages layer (qb_model_cls b) (Some 0) (map Inr pss)"
      by (simp add: query_iter_def query_limit_def)
    show "query_iter compile paginate layer (query_limit b 0) =
        \<lparr>yielded = map f (concat pss), page_requests = length pss, raised = None\<rparr> \<and>
      all_items (query_iter compile paginate layer (query_limit b 0)) =
        Inr (map f (concat pss))"
      unfolding r e [OF a] by (simp add: all_items_def)
  qed
  have ys: "\<forall>kwargs. scan_iter_kwargs compile' (scan_limit s 0) = Inr kwargs \<and>
      paginate' kwargs = map Inr pss' \<and>
      (\<forall>item \<in> set (concat pss'). materialise layer (sb_model_cls s) item = Inr (f' item)) \<longrightarrow>
      scan_iter compile' paginate' layer (scan_limit s 0) =
        \<lparr>yielded = map f' (concat pss'), page_requests = length pss', raised = None\<rparr> \<and>
      all_items (scan_iter compile' paginate' layer (scan_limit s 0)) =
        Inr (map f' (concat pss'))"
  proof (intro allI impI)
    fix kwargs
    assume h: "scan_iter_kwargs compile' (scan_limit s 0) = Inr kwargs \<and>
      paginate' kwargs = map Inr pss' \<and>
      (\<forall>item \<in> set (concat pss'). materialise layer (sb_model_cls s) item = Inr (f' item))"
    then have a: "\<forall>item \<in> set (concat pss'). materialise layer (sb_model_cls s) item = Inr (f' item)"
      by blast
    from h have r: "scan_iter compile' paginate' layer (scan_limit s 0) =
        iterate_pages layer (sb_model_cls s) (Some 0) (map Inr pss')"
      by (simp add: scan_iter_def scan_limit_def)
    show "scan_iter compile' paginate' layer (scan_limit s 0) =
        \<lparr>yielded = map f' (concat pss'), page_requests = length pss', raised = None\<rparr> \<and>
      all_items (scan_iter compile' paginate' layer (scan_limit s 0)) =
        Inr (map f' (concat pss'))"
      unfolding r e [OF a] by (simp add: all_items_def)
  qed
  from k1 k2 q yq k3 k4 s ys show ?thesis by (intro conjI)
qed

lemma sample_query_kwargs:
  "query_iter_kwargs text_compile (query_limit simple_query 0) =
     Inr \<lparr>qk_TableName = ''simple'', qk_KeyConditionExpression = ''#pk = :pk'',
          qk_ExpressionAttributeValues = [('':pk'', WS ''a'')],
          qk_ExpressionAttributeNames = [(''#pk'', ''pk'')],
          qk_ScanIndexForward = True, qk_Limit = None, qk_IndexName = None,
          qk_FilterExpression = None\<rparr>"
  by (simp add: query_iter_kwargs_def query_limit_def simple_query_def simple_model_def
      dict_update_def truthy_str_def Let_def)

lemma sample_scan_kwargs:
  "scan_iter_kwargs text_compile (scan_limit simple_scan 0) =
     Inr \<lparr>sk_TableName = ''simple'', sk_IndexName = None, sk_Limit = None,
          sk_FilterExpression = None, sk_ExpressionAttributeNames = None,
          sk_ExpressionAttributeValues = None\<rparr>"
  by (simp add: scan_iter_kwargs_def scan_limit_def simple_scan_def simple_model_def
      truthy_str_def Let_def)

lemma sample_materialise:
  "materialise (required_fields_layer []) simple_model (stored_item k) =
     Inr (Instance ''SimpleModel'' [(''pk'', PStr k)])"
  by (simp add: simple_model_def stored_item_def materialise_def from_dynamo_def
      deserialize_item_def construct_def required_fields_layer_def truthy_str_def Let_def)

lemma sample_restore_wire: "restore_wire (stored_item k) = PStr k"
  by (simp add: restore_wire_def stored_item_def)

theorem limit_zero_is_no_limit_witness:
  "query_iter text_compile sample_paginate (required_fields_layer []) (query_limit simple_query 0) =
     \<lparr>yielded = [Instance ''SimpleModel'' [(''pk'', PStr ''a'')],
                 Instance ''SimpleModel'' [(''pk'', PStr ''b'')],
                 Instance ''SimpleModel'' [(''pk'', PStr ''c'')],
                 Instance ''SimpleModel'' [(''pk'', PStr ''d'')],
                 Instance ''SimpleModel'' [(''pk'', PStr ''e'')]],
      page_requests = 3, raised = None\<rparr> \<and>
   scan_iter text_compile sample_paginate (required_fields_layer []) (scan_limit simple_scan 0) =
     \<lparr>yielded = [Instance ''SimpleModel'' [(''pk'', PStr ''a'')],
                 Instance ''SimpleModel'' [(''pk'', PStr ''b'')],
                 Instance ''SimpleModel'' [(''pk'', PStr ''c'')],
                 Instance ''SimpleModel'' [(''pk'', PStr ''d'')],
                 Instance ''SimpleModel'' [(''pk'', PStr ''e'')]],
      page_requests = 3, raised = None\<rparr> \<and>
   map_sum id qk_Limit (query_iter_kwargs text_compile (query_limit simple_query 0)) = Inr None \<and>
   map_sum id sk_Limit (scan_iter_kwargs text_compile (scan_limit simple_scan 0)) = Inr None"
proof -
  let ?pss = "[[stored_item ''a'', stored_item ''b''], [stored_item ''c'', stored_item ''d''],
               [stored_item ''e'']]"
  let ?f = "\<lambda>item. Instance ''SimpleModel'' [(''pk'', restore_wire item)]"
  note t = limit_zero_is_no_limit
    [where compile = text_compile and b = simple_query and paginate = sample_paginate
       and layer = "required_fields_layer []" and compile' = text_compile and s = simple_scan
       and paginate' = sample_paginate and pss = ?pss and pss' = ?pss and f = ?f and f' = ?f]
  have pq: "sample_paginate (kwargs :: query_kwargs) = map Inr ?pss" for kwargs
    by (simp add: sample_paginate_def sample_pages_def)
  have ps: "sample_paginate (kwargs :: scan_kwargs) = map Inr ?pss" for kwargs
    by (simp add: sample_paginate_def sample_pages_def)
  have mq: "\<forall>item \<in> set (concat ?pss).
      materialise (required_fields_layer []) (qb_model_cls simple_query) item = Inr (?f item)"
    by (simp add: simple_query_def sample_materialise sample_restore_wire)
  have ms: "\<forall>item \<in> set (concat ?pss).
      materialise (required_fields_layer []) (sb_model_cls simple_scan) item = Inr (?f item)"
    by (simp add: simple_scan_def sample_materialise sample_restore_wire)
  note yq = t [THEN conjunct2, THEN conjunct2, THEN conjunct2, THEN conjunct1, rule_format]
  note ys = t [THEN conjunct2, THEN conjunct2, THEN conjunct2, THEN conjunct2, THEN conjunct2,
               THEN conjunct2, THEN conjunct2, rule_format]
  have q: "query_iter text_compile sample_paginate (required_fields_layer [])
             (query_limit simple_query 0) =
           \<lparr>yielded = map ?f (concat ?pss), page_requests = length ?pss, raised = None\<rparr>"
    by (rule yq [OF conjI [OF sample_query_kwargs conjI [OF pq mq]], THEN conjunct1])
  have s: "scan_iter text_compile sample_paginate (required_fields_layer [])
             (scan_limit simple_scan 0) =
           \<lparr>yielded = map ?f (concat ?pss), page_requests = length ?pss, raised = None\<rparr>"
    by (rule ys [OF conjI [OF sample_scan_kwargs conjI [OF ps ms]], THEN conjunct1])
  show ?thesis
    unfolding q s by (simp add: sample_query_kwargs sample_scan_kwargs sample_restore_wire)
qed

section \<open>Query builder: properties\<close>

lemma map_of_dict_set: "map_of (dict_set k v d) = (map_of d)(k \<mapsto> v)"
  by (induction d) (auto simp: fun_eq_iff)

lemma keys_dict_set: "fst ` set (dict_set k v d) = insert k (fst ` set d)"
  by (induction d) auto

lemma message_query_built:
  "(case query message_model (PStr ''general'') of
      Inl e \<Rightarrow> Inl e
    | Inr b \<Rightarrow> query_eq b (PStr ''t1'')) = Inr message_query"
  by (simp add: query_def new_query_builder_def query_eq_def message_query_def
      message_model_def to_dynamo_value_def truthy_str_def Let_def)

text \<open>
  Claim C8, as amended. For an index defined in the schema, \<open>using_index(name)\<close> sets
  the active index name and the two resolved key field names, and points the \<open>#pk\<close>
  name placeholder at the index's partition key. The value map is untouched: \<open>:pk\<close>
  still holds the value serialized at construction. Of the name placeholders only \<open>#pk\<close>
  changes, and \<open>#sk\<close> when it is present and the index has a sort key, which then
  replaces it. All other builder state is unchanged.
\<close>

theorem using_index_frame:
  assumes "get_gsi (qb_config b) name = Some gsi"
  shows "case query_using_index b name of
           Inl e \<Rightarrow> False
         | Inr b' \<Rightarrow>
             b' = b\<lparr>qb_index_name := Some name, qb_pk_name := gsi_pk_name gsi,
                    qb_sk_name := gsi_sk_name gsi,
                    qb_expression_names := qb_expression_names b'\<rparr> \<and>
             qb_expression_values b' = qb_expression_values b \<and>
             map_of (qb_expression_values b') '':pk'' = map_of (qb_expression_values b) '':pk'' \<and>
             map_of (qb_expression_names b') ''#pk'' = Some (gsi_pk_name gsi) \<and>
             (\<forall>k. k \<noteq> ''#pk'' \<and> k \<noteq> ''#sk'' \<longrightarrow>
                map_of (qb_expression_names b') k = map_of (qb_expression_names b) k) \<and>
             map_of (qb_expression_names b') ''#sk'' =
               (if truthy_str (gsi_sk_name gsi) \<and> map_of (qb_expression_names b) ''#sk'' \<noteq> None
                then gsi_sk_name gsi
                else map_of (qb_expression_names b) ''#sk'')"
proof -
  have dom: "''#sk'' \<in> fst ` set (dict_set ''#pk'' (gsi_pk_name gsi) (qb_expression_names b))
      \<longleftrightarrow> map_of (qb_expression_names b) ''#sk'' \<noteq> None"
    by (simp add: keys_dict_set map_of_eq_None_iff)
  show ?thesis
    using assms dom
    by (auto simp: query_using_index_def Let_def map_of_dict_set truthy_str_def
        split: option.splits)
qed

theorem using_index_frame_witness:
  "get_gsi (qb_config message_query) ''DateIndex'' =
     Some \<lparr>gsi_index_name = ''DateIndex'', gsi_pk_name = ''date'', gsi_pk_type = ''S'',
           gsi_sk_name = Some ''created_at'', gsi_sk_type = ''S'',
           gsi_projection_type = ''ALL''\<rparr> \<and>
   query_using_index message_query ''DateIndex'' =
     Inr (message_query\<lparr>qb_index_name := Some ''DateIndex'', qb_pk_name := ''date'',
            qb_sk_name := Some ''created_at'',
            qb_expression_names := [(''#pk'', ''date''), (''#sk'', ''created_at'')]\<rparr>) \<and>
   map_of (qb_expression_values message_query) '':pk'' = Some (WS ''general'')"
  using using_index_frame [of message_query "''DateIndex''"
      "\<lparr>gsi_index_name = ''DateIndex'', gsi_pk_name = ''date'', gsi_pk_type = ''S'',
        gsi_sk_name = Some ''created_at'', gsi_sk_type = ''S'',
        gsi_projection_type = ''ALL''\<rparr>"]
  by (simp add: query_using_index_def message_query_def message_model_def get_gsi_def
      truthy_str_def Let_def)

text \<open>
  Claim C8 as stated fails: on a query that already has a sort-key condition,
  \<open>using_index\<close> also rewrites the \<open>#sk\<close> name placeholder to the sort key of the new
  index, so builder state other than \<open>#pk\<close>, the index name and the key field names
  changes.
\<close>

theorem using_index_sk_counterexample:
  "qb_expression_names message_query = [(''#pk'', ''room_id''), (''#sk'', ''timestamp'')] \<and>
   map_sum id qb_expression_names (query_using_index message_query ''DateIndex'') =
     Inr [(''#pk'', ''date''), (''#sk'', ''created_at'')]"
  by (simp add: query_using_index_def message_query_def message_model_def get_gsi_def
      truthy_str_def Let_def)






lemma user_query_run:
  "map_sum id (\<lambda>b. query_iter text_compile user_pages test_layer b)
     (query user_model (PStr ''p1'')) =
   Inr \<lparr>yielded =
          [Instance ''User'' [(''pk'', PStr ''p1''), (''sk'', PStr ''1''),
                              (''entity_type'', PStr ''USER''), (''name'', PStr ''Alice'')],
           Instance ''User'' [(''pk'', PStr ''p1''), (''sk'', PStr ''2''),
                              (''entity_type'', PStr ''USER''), (''name'', PStr ''Bob'')]],
        page_requests = 2, raised = None\<rparr>"
  by (simp add: query_def new_query_builder_def query_add_discriminator_filter_def
      user_model_def my_table_def my_table_meta_def registered_subtype_def truthy_str_def
      to_dynamo_value_def query_iter_def query_iter_kwargs_def filter_parts_def
      dict_update_def iterate_pages_def user_pages_def stored_user_def materialise_def
      from_dynamo_def deserialize_item_def construct_def test_layer_def
      required_fields_layer_def limit_reached_def Let_def)


section \<open>Atomic updates: properties\<close>

lemma rename_update_compiles:
  "compile_update sample_adapter text_compile (return_values rename_update rv) =
     Inr \<lparr>cu_UpdateExpression = ''SET #u_n0 = :u_v0'', cu_ConditionExpression = None,
          cu_ExpressionAttributeNames = Some [(''#u_n0'', ''name'')],
          cu_ExpressionAttributeValues = Some [('':u_v0'', WS ''Bob'')]\<rparr>"
  by (simp add: compile_update_def return_values_def rename_update_def my_table_def
      build_expression_def get_name_ph_def get_value_ph_def to_dynamo_value_def
      str_nat.simps truthy_str_def Let_def)

lemma rename_update_key:
  "to_dynamo (key_dict (return_values rename_update rv)) = Inr [(''pk'', WS ''1'')]"
  by (simp add: key_dict_def return_values_def rename_update_def my_table_def my_table_meta_def
      to_dynamo_def Let_def)

lemma rename_update_fields:
  "ub_model_cls (return_values rename_update rv) = my_table"
  "ub_return_values (return_values rename_update rv) = rv"
  by (simp_all add: return_values_def rename_update_def)
text \<open>
  Claim C4, as amended. Take an executed update: the key serialises, the actions compile, and
  the store answers the request with a response. If the return-values mode is \<open>ALL_NEW\<close> and
  the response has attributes, \<open>execute\<close> decodes them and returns the model instance that
  polymorphic item resolution constructs from them (or raises what decoding or construction
  raises). In every other case, so for every other mode, \<open>UPDATED_NEW\<close> included, and for a
  response without attributes, it returns the store's response unchanged. Exactly one
  request was sent.
\<close>

theorem execute_return_mode:
  assumes "to_dynamo (key_dict b) = Inr dynamo_key"
    and "compile_update adapter compile b = Inr params"
    and "client \<lparr>ui_params = params, ui_TableName = table_name (cls_meta (ub_model_cls b)),
                  ui_Key = dynamo_key, ui_ReturnValues = ub_return_values b\<rparr> = Inr response"
  shows "(ub_return_values b = ''ALL_NEW'' \<and> ur_Attributes response = Some attrs \<longrightarrow>
            fst (execute adapter compile client layer b) =
              (case from_dynamo attrs of
                 Inl e \<Rightarrow> Inl e
               | Inr raw_data \<Rightarrow>
                   map_sum id ModelInstance (deserialize_item layer (ub_model_cls b) raw_data))) \<and>
         (ub_return_values b \<noteq> ''ALL_NEW'' \<or> ur_Attributes response = None \<longrightarrow>
            fst (execute adapter compile client layer b) = Inr (RawResponse response)) \<and>
         snd (execute adapter compile client layer b) =
           [\<lparr>ui_params = params, ui_TableName = table_name (cls_meta (ub_model_cls b)),
             ui_Key = dynamo_key, ui_ReturnValues = ub_return_values b\<rparr>]"
  using assms
  by (auto simp: execute_def Let_def split: sum.splits)

theorem execute_return_mode_witness:
  "fst (execute sample_adapter text_compile sample_client test_layer
          (return_values rename_update ''ALL_NEW'')) =
     Inr (ModelInstance (Instance ''User''
            [(''pk'', PStr ''1''), (''entity_type'', PStr ''USER''), (''name'', PStr ''Bob'')])) \<and>
   fst (execute sample_adapter text_compile sample_client test_layer
          (return_values rename_update ''NONE'')) =
     Inr (RawResponse \<lparr>ur_Attributes = None, ur_ResponseMetadata = ''200''\<rparr>)"
proof -
  let ?attrs = "[(''pk'', WS ''1''), (''entity_type'', WS ''USER''), (''name'', WS ''Bob'')]"
  have c: "from_dynamo ?attrs =
             Inr [(''pk'', PStr ''1''), (''entity_type'', PStr ''USER''), (''name'', PStr ''Bob'')]"
    by (simp add: from_dynamo_def)
  have d: "deserialize_item test_layer my_table
             [(''pk'', PStr ''1''), (''entity_type'', PStr ''USER''), (''name'', PStr ''Bob'')] =
           Inr (Instance ''User''
             [(''pk'', PStr ''1''), (''entity_type'', PStr ''USER''), (''name'', PStr ''Bob'')])"
    by (simp add: deserialize_item_def my_table_def my_table_meta_def test_layer_def
        required_fields_layer_def construct_def truthy_str_def Let_def)
  have a: "fst (execute sample_adapter text_compile sample_client test_layer
                  (return_values rename_update ''ALL_NEW'')) =
             Inr (ModelInstance (Instance ''User''
               [(''pk'', PStr ''1''), (''entity_type'', PStr ''USER''), (''name'', PStr ''Bob'')]))"
    using execute_return_mode
      [where b = "return_values rename_update ''ALL_NEW''" and adapter = sample_adapter
         and compile = text_compile and client = sample_client and layer = test_layer
         and attrs = ?attrs
         and response = "\<lparr>ur_Attributes = Some ?attrs, ur_ResponseMetadata = ''200''\<rparr>",
       OF rename_update_key rename_update_compiles]
    by (simp add: sample_client_def rename_update_fields c d)
  have b: "fst (execute sample_adapter text_compile sample_client test_layer
                  (return_values rename_update ''NONE'')) =
             Inr (RawResponse \<lparr>ur_Attributes = None, ur_ResponseMetadata = ''200''\<rparr>)"
    using execute_return_mode
      [where b = "return_values rename_update ''NONE''" and adapter = sample_adapter
         and compile = text_compile and client = sample_client and layer = test_layer
         and response = "\<lparr>ur_Attributes = None, ur_ResponseMetadata = ''200''\<rparr>",
       OF rename_update_key rename_update_compiles]
    by (simp add: sample_client_def rename_update_fields)
  from a b show ?thesis by (rule conjI)
qed

text \<open>
  The claim as stated fails for \<open>UPDATED_NEW\<close>: the store returns the updated attribute, and
  \<open>execute\<close> hands back the raw response, not a model instance.
\<close>

theorem execute_updated_new_counterexample:
  "fst (execute sample_adapter text_compile sample_client test_layer
          (return_values rename_update ''UPDATED_NEW'')) =
     Inr (RawResponse \<lparr>ur_Attributes = Some [(''name'', WS ''Bob'')],
                        ur_ResponseMetadata = ''200''\<rparr>)"
  by (simp add: execute_def rename_update_key rename_update_compiles rename_update_fields
      sample_client_def Let_def)
lemma validate_add_rejected:
  assumes "get_field_info (model_fields model_cls) n = Some fld"
    and "adapter (fi_annotation fld) v = Inr validated_value"
    and "\<not> add_is_number validated_value" and "\<not> add_is_set validated_value"
  shows "validate adapter model_cls (AddAction n v) = Inl (invalid_add_type n validated_value)"
  using assms by simp

lemma validate_add_undeclared:
  assumes "get_field_info (model_fields model_cls) n = None"
    and "\<not> add_is_number v" and "\<not> add_is_set v"
  shows "validate adapter model_cls (AddAction n v) = Inl (invalid_add_value v)"
  using assms by simp

lemma group_actions_fails:
  assumes "a \<in> set actions" and "validate adapter model_cls a = Inl e"
  shows "isl (group_actions adapter model_cls actions g)"
  using assms
proof (induction actions arbitrary: g)
  case Nil
  then show ?case by simp
next
  case (Cons x xs)
  show ?case
  proof (cases "validate adapter model_cls x")
    case (Inl e')
    then show ?thesis by simp
  next
    case (Inr validated_value)
    with Cons.prems have "a \<in> set xs" by auto
    from Cons.IH [OF this Cons.prems(2)] Inr show ?thesis by simp
  qed
qed

lemma group_actions_first_failure:
  assumes "\<forall>x \<in> set pre. \<not> isl (validate adapter model_cls x)"
    and "validate adapter model_cls a = Inl e"
  shows "group_actions adapter model_cls (pre @ a # post) g = Inl e"
  using assms
proof (induction pre arbitrary: g)
  case Nil
  then show ?case by simp
next
  case (Cons x xs)
  from Cons.prems(1) obtain validated_value where v: "validate adapter model_cls x = Inr validated_value"
    by (cases "validate adapter model_cls x") auto
  from Cons.prems(1) have "\<forall>x \<in> set xs. \<not> isl (validate adapter model_cls x)" by simp
  from Cons.IH [OF this Cons.prems(2)] v show ?case by simp
qed

text \<open>
  Claim C6, as amended. Take an update builder that contains an \<open>Add\<close> on a declared field
  whose value, coerced against the field's declared type, is neither a number nor a set.
  Executing it raises and sends no request to the store, whatever the other actions are.
  When the key serialises and every action before the \<open>Add\<close> validates, what is raised is
  the \<open>ValueError\<close> that names the field, with the message that DynamoDB ADD supports only
  numbers and sets and the name of the coerced value's type.
\<close>

theorem add_rejected_before_network:
  assumes "ub_actions b = pre @ AddAction n v # post"
    and "get_field_info (model_fields (ub_model_cls b)) n = Some fld"
    and "adapter (fi_annotation fld) v = Inr validated_value"
    and "\<not> add_is_number validated_value" and "\<not> add_is_set validated_value"
  shows "isl (fst (execute adapter compile client layer b)) \<and>
         snd (execute adapter compile client layer b) = [] \<and>
         (\<not> isl (to_dynamo (key_dict b)) \<and>
          (\<forall>a \<in> set pre. \<not> isl (validate adapter (ub_model_cls b) a)) \<longrightarrow>
            execute adapter compile client layer b =
              (Inl (ValueError (''Invalid type for ADD operation on field '' @ apostrophe @ n @
                      apostrophe @ ''. DynamoDB ADD supports only Numbers and Sets. Got: '' @
                      type_name validated_value)), []))"
proof -
  let ?g = "\<lparr>set_actions = [], remove_actions = [], add_actions = [], delete_actions = []\<rparr>"
  have v: "validate adapter (ub_model_cls b) (AddAction n v) =
             Inl (invalid_add_type n validated_value)"
    using assms(2-5) by simp
  have ne: "ub_actions b \<noteq> []" using assms(1) by simp
  have "AddAction n v \<in> set (ub_actions b)" using assms(1) by simp
  from group_actions_fails [OF this v]
  have "isl (group_actions adapter (ub_model_cls b) (ub_actions b) ?g)" .
  then have c: "isl (compile_update adapter compile b)"
    using ne by (auto simp: compile_update_def isl_def)
  then have general: "isl (fst (execute adapter compile client layer b)) \<and>
      snd (execute adapter compile client layer b) = []"
    by (auto simp: execute_def Let_def isl_def split: sum.splits)
  have specific: "execute adapter compile client layer b =
      (Inl (invalid_add_type n validated_value), [])"
    if k: "\<not> isl (to_dynamo (key_dict b))"
      and p: "\<forall>a \<in> set pre. \<not> isl (validate adapter (ub_model_cls b) a)"
  proof -
    from group_actions_first_failure [OF p v, of post ?g] assms(1)
    have "group_actions adapter (ub_model_cls b) (ub_actions b) ?g =
            Inl (invalid_add_type n validated_value)" by simp
    then have "compile_update adapter compile b = Inl (invalid_add_type n validated_value)"
      using ne by (simp add: compile_update_def)
    with k show ?thesis
      by (auto simp: execute_def Let_def split: sum.splits)
  qed
  have m: "invalid_add_type n validated_value =
      ValueError (''Invalid type for ADD operation on field '' @ apostrophe @ n @
                      apostrophe @ ''. DynamoDB ADD supports only Numbers and Sets. Got: '' @
                      type_name validated_value)"
    by (simp add: invalid_add_type_def)
  from general specific show ?thesis unfolding m by blast
qed

lemma user_model_name_field:
  "get_field_info (model_fields user_model) ''name'' =
     Some \<lparr>fi_alias = None, fi_annotation = ''str''\<rparr>"
  by (simp add: user_model_def registered_subtype_def my_table_def truthy_str_def)

lemma user_model_entity_type_field:
  "get_field_info (model_fields user_model) ''entity_type'' =
     Some \<lparr>fi_alias = None, fi_annotation = ''str''\<rparr>"
  by (simp add: user_model_def registered_subtype_def my_table_def truthy_str_def)

lemma user_update_key:
  "to_dynamo (key_dict \<lparr>ub_model_cls = user_model, ub_pk = PStr ''1'', ub_sk = PNone,
      ub_actions = acts, ub_condition = cond, ub_return_values = rv\<rparr>) =
     Inr [(''pk'', WS ''1'')]"
  by (simp add: key_dict_def user_model_def registered_subtype_def my_table_def my_table_meta_def
      to_dynamo_def Let_def)

theorem add_rejected_before_network_witness:
  "execute sample_adapter text_compile sample_client test_layer add_update =
     (Inl (ValueError (''Invalid type for ADD operation on field '' @ apostrophe @ ''name'' @
             apostrophe @ ''. DynamoDB ADD supports only Numbers and Sets. Got: str'')), [])"
proof -
  have k: "\<not> isl (to_dynamo (key_dict add_update))"
    by (simp add: add_update_def user_update_key)
  have p: "\<forall>a \<in> set [SetAction ''entity_type'' (PStr ''USER'')].
             \<not> isl (validate sample_adapter (ub_model_cls add_update) a)"
    by (simp add: add_update_def user_model_entity_type_field)
  have f: "get_field_info (model_fields (ub_model_cls add_update)) ''name'' =
             Some \<lparr>fi_alias = None, fi_annotation = ''str''\<rparr>"
    by (simp add: add_update_def user_model_name_field)
  have a: "ub_actions add_update =
             [SetAction ''entity_type'' (PStr ''USER'')] @ AddAction ''name'' (PStr ''x'') #
             [RemoveAction ''name'']"
    by (simp add: add_update_def)
  have c: "sample_adapter (fi_annotation \<lparr>fi_alias = None, fi_annotation = ''str''\<rparr>) (PStr ''x'') =
             Inr (PStr ''x'')"
    by simp
  have n1: "\<not> add_is_number (PStr ''x'')" and n2: "\<not> add_is_set (PStr ''x'')"
    by simp_all
  from add_rejected_before_network
    [where adapter = sample_adapter and client = sample_client and compile = text_compile
       and layer = test_layer and b = add_update
       and pre = "[SetAction ''entity_type'' (PStr ''USER'')]" and n = "''name''"
       and v = "PStr ''x''" and post = "[RemoveAction ''name'']"
       and fld = "\<lparr>fi_alias = None, fi_annotation = ''str''\<rparr>"
       and validated_value = "PStr ''x''",
     OF a f c n1 n2, THEN conjunct2, THEN conjunct2, rule_format, OF conjI [OF k p]]
  show ?thesis by simp
qed

text \<open>
  The claim as stated fails when an earlier action is rejected first: the error raised names
  that action's field and is not the ADD error.
\<close>

theorem add_not_first_counterexample:
  "execute sample_adapter text_compile sample_client test_layer two_updates =
     (Inl (ValueError (''Validation failed for field '' @ apostrophe @ ''entity_type'' @
             apostrophe @ '': Input should be a valid string'')), []) \<and>
   execute sample_adapter text_compile sample_client test_layer two_updates \<noteq>
     (Inl (ValueError (''Invalid type for ADD operation on field '' @ apostrophe @ ''name'' @
             apostrophe @ ''. DynamoDB ADD supports only Numbers and Sets. Got: str'')), [])"
proof -
  have "compile_update sample_adapter text_compile two_updates =
          Inl (ValueError (''Validation failed for field '' @ apostrophe @ ''entity_type'' @
             apostrophe @ '': Input should be a valid string''))"
    by (simp add: compile_update_def two_updates_def user_model_entity_type_field
        validation_failed_def)
  then show ?thesis
    by (simp add: execute_def two_updates_def [THEN arg_cong, of key_dict] user_update_key Let_def)
qed

end
